theory Spec2Isabelle
  imports Main "HOL-Library.Sublist"
begin

section \<open>Strings\<close>

text \<open>
  JavaScript strings are modelled as \<^typ>\<open>string\<close>: every code unit is one \<^typ>\<open>char\<close>,
  so the model covers strings whose code units are below 256. The two separators U+2028
  and U+2029 lie outside that range; where the source treats them specially this is said
  at the definition.
\<close>

definition charCode :: "char \<Rightarrow> nat" where
  "charCode c = of_char c"

text \<open>\<open>Array.prototype.join\<close>.\<close>

fun join :: "string \<Rightarrow> string list \<Rightarrow> string" where
  "join sep [] = []"
| "join sep [x] = x"
| "join sep (x # y # ys) = x @ sep @ join sep (y # ys)"

text \<open>\<open>String(n)\<close> for a non-negative integer: its decimal digits.\<close>

definition digit :: "nat \<Rightarrow> char" where
  "digit d = char_of (48 + d)"

fun String_of_nat :: "nat \<Rightarrow> string" where
  "String_of_nat n = (if n < 10 then [digit n] else String_of_nat (n div 10) @ [digit (n mod 10)])"

declare String_of_nat.simps [simp del]

text \<open>
  \<open>String.prototype.trim\<close>: the white space of the 8-bit range is TAB, LF, VT, FF, CR,
  space and the no-break space.
\<close>

definition isSpace :: "char \<Rightarrow> bool" where
  "isSpace c = (charCode c \<in> {9, 10, 11, 12, 13, 32, 160})"

definition trim :: "string \<Rightarrow> string" where
  "trim s = rev (dropWhile isSpace (rev (dropWhile isSpace s)))"

text \<open>\<open>String.prototype.toLowerCase\<close> on the 8-bit range: A-Z and the Latin-1 capitals.\<close>

definition lowerChar :: "char \<Rightarrow> char" where
  "lowerChar c =
     (let n = charCode c in
      if (65 \<le> n \<and> n \<le> 90) \<or> (192 \<le> n \<and> n \<le> 222 \<and> n \<noteq> 215) then char_of (n + 32) else c)"

definition toLowerCase :: "string \<Rightarrow> string" where
  "toLowerCase s = map lowerChar s"

text \<open>
  \<open>JSON.stringify\<close> of a string: the quotation mark and the backslash are escaped, the
  control characters below U+0020 are written with their short escapes or as
  \<open>\u00XX\<close>, every other code unit is kept.
\<close>

definition hexDigit :: "nat \<Rightarrow> char" where
  "hexDigit d = (if d < 10 then char_of (48 + d) else char_of (87 + d))"

definition jsonEscape :: "char \<Rightarrow> string" where
  "jsonEscape c =
     (let n = charCode c in
      if n = 34 then [CHR 0x5C, CHR 0x22]
      else if n = 92 then [CHR 0x5C, CHR 0x5C]
      else if n = 8 then [CHR 0x5C, CHR ''b'']
      else if n = 12 then [CHR 0x5C, CHR ''f'']
      else if n = 10 then [CHR 0x5C, CHR ''n'']
      else if n = 13 then [CHR 0x5C, CHR ''r'']
      else if n = 9 then [CHR 0x5C, CHR ''t'']
      else if n < 32 then [CHR 0x5C, CHR ''u'', CHR ''0'', CHR ''0'', hexDigit (n div 16), hexDigit (n mod 16)]
      else [c])"

definition JSON_stringify :: "string \<Rightarrow> string" where
  "JSON_stringify s = [CHR 0x22] @ concat (map jsonEscape s) @ [CHR 0x22]"


text \<open>
  The truth value of an optional string (\<open>undefined\<close> and the empty string are falsy) and
  its text in a template literal.
\<close>

definition truthy :: "string option \<Rightarrow> bool" where
  "truthy v = (case v of None \<Rightarrow> False | Some s \<Rightarrow> s \<noteq> [])"

definition String_of :: "string option \<Rightarrow> string" where
  "String_of v = (case v of None \<Rightarrow> ''undefined'' | Some s \<Rightarrow> s)"

text \<open>\<open>v || d\<close> for an optional string.\<close>

definition or_default :: "string option \<Rightarrow> string \<Rightarrow> string" where
  "or_default v d = (if truthy v then String_of v else d)"


section \<open>Text interpolation parser (text-parser.js)\<close>














text \<open>
  The raw tokens: a literal string, or the marker \<open>{'@binding': exp}\<close>.
\<close>

datatype token = Lit string | Binding string

record TextParseResult =
  expression :: string
  tokens :: "token list"





section \<open>Tokenizer (html-parser.js)\<close>





















text \<open>\<open>decodeAttr\<close>: the entities of \<open>decodingMap\<close>, the last two only when newlines are
  decoded.\<close>

definition decodingMap :: "bool \<Rightarrow> (string \<times> char) list" where
  "decodingMap shouldDecodeNewlines =
     [(''&lt;'', CHR ''<''), (''&gt;'', CHR ''>''), (''&quot;'', CHR 0x22), (''&amp;'', CHR ''&'')] @
     (if shouldDecodeNewlines then [(''&#10;'', CHR 0x0A), (''&#9;'', CHR 0x09)] else [])"

function decodeAttr :: "string \<Rightarrow> bool \<Rightarrow> string" where
  "decodeAttr [] shouldDecodeNewlines = []"
| "decodeAttr (c # s) shouldDecodeNewlines =
     (case find (\<lambda>(entity, ch). prefix entity (c # s)) (decodingMap shouldDecodeNewlines) of
        Some (entity, ch) \<Rightarrow> ch # decodeAttr (drop (length entity) (c # s)) shouldDecodeNewlines
      | None \<Rightarrow> c # decodeAttr s shouldDecodeNewlines)"
  by pat_completeness auto
termination
  by (relation "measure (\<lambda>(s, b). length s)")
     (auto simp: decodingMap_def split: if_splits)

text \<open>
  The callbacks of the options, in the order they are called: \<open>start(tag, attrs, unary,
  start, end)\<close>, \<open>end(tag, start, end)\<close>, \<open>chars(text)\<close>, \<open>comment(text)\<close> and \<open>warn(msg)\<close>.
\<close>

datatype Event =
    Start string "(string \<times> string) list" bool nat nat
  | End string nat nat
  | Chars string
  | Comment string
  | Warn string

text \<open>
  The options. \<open>optStart\<close>, \<open>optEnd\<close>, \<open>optChars\<close> and \<open>optWarn\<close> say whether the callback
  is given; \<open>NODE_ENV_production\<close> is \<open>process.env.NODE_ENV === 'production'\<close>;
  \<open>isNonPhrasingTag\<close> is imported from the platform (web/compiler/util).
\<close>

record HTMLOptions =
  NODE_ENV_production :: bool
  expectHTML :: bool
  isUnaryTag :: "string \<Rightarrow> bool"
  canBeLeftOpenTag :: "string \<Rightarrow> bool"
  isNonPhrasingTag :: "string \<Rightarrow> bool"
  shouldKeepComment :: bool
  shouldDecodeNewlines :: bool
  shouldDecodeNewlinesForHref :: bool
  optStart :: bool
  optEnd :: bool
  optChars :: bool
  optWarn :: bool

text \<open>An entry of the stack of open tags: \<open>{tag, lowerCasedTag, attrs}\<close>.\<close>

datatype StackEntry = StackEntry (entryTag: string) (lowerCasedTag: string) (entryAttrs: "(string \<times> string) list")

text \<open>
  The variables of \<open>parseHTML\<close> that its inner functions share, and the calls made so far.
  The stack is in the order of the array, the innermost open tag last. \<open>lastTag\<close> is
  \<open>None\<close> when it is \<open>undefined\<close> or 0.
\<close>

record HTMLState =
  html :: string
  index :: nat
  stack :: "StackEntry list"
  lastTag :: "string option"
  emitted :: "Event list"

definition emit :: "bool \<Rightarrow> Event \<Rightarrow> HTMLState \<Rightarrow> HTMLState" where
  "emit given ev st = (if given then st\<lparr>emitted := emitted st @ [ev]\<rparr> else st)"

definition advance :: "nat \<Rightarrow> HTMLState \<Rightarrow> HTMLState" where
  "advance n st = st\<lparr>index := index st + n, html := drop n (html st)\<rparr>"

text \<open>
  \<open>parseEndTag\<close>. The first loop looks for the closest open tag of the same lower-cased
  name, from the top of the stack down; \<open>None\<close> is the position -1.
\<close>

fun findPos :: "StackEntry list \<Rightarrow> string \<Rightarrow> nat \<Rightarrow> nat option" where
  "findPos stk lowerCasedTagName 0 = None"
| "findPos stk lowerCasedTagName (Suc pos) =
     (if lowerCasedTag (stk ! pos) = lowerCasedTagName then Some pos
      else findPos stk lowerCasedTagName pos)"

text \<open>The second loop, \<open>for (let i = stack.length - 1; i >= pos; i--)\<close>; \<open>n\<close> is \<open>i + 1\<close>.\<close>

fun closeLoop :: "HTMLOptions \<Rightarrow> bool \<Rightarrow> nat \<Rightarrow> nat \<Rightarrow> nat \<Rightarrow> nat \<Rightarrow> HTMLState \<Rightarrow> HTMLState" where
  "closeLoop opts hasTagName pos start end' 0 st = st"
| "closeLoop opts hasTagName pos start end' (Suc i) st =
     (if i \<ge> pos then
        closeLoop opts hasTagName pos start end' i
          (emit (optEnd opts) (End (entryTag (stack st ! i)) start end')
             (emit (\<not> NODE_ENV_production opts \<and> (i > pos \<or> \<not> hasTagName) \<and> optWarn opts)
                (Warn (''tag <'' @ entryTag (stack st ! i) @ ''> has no matching end tag.'')) st))
      else st)"

definition parseEndTag :: "HTMLOptions \<Rightarrow> string option \<Rightarrow> nat option \<Rightarrow> nat option \<Rightarrow> HTMLState \<Rightarrow> HTMLState" where
  "parseEndTag opts tagName start end' st =
     (let start1 = (case start of None \<Rightarrow> index st | Some s \<Rightarrow> s);
          end1 = (case end' of None \<Rightarrow> index st | Some e \<Rightarrow> e);
          lowerCasedTagName = toLowerCase (String_of tagName);
          pos = (if truthy tagName then findPos (stack st) lowerCasedTagName (length (stack st))
                 else Some 0)
      in case pos of
           Some p \<Rightarrow>
             (let st1 = closeLoop opts (truthy tagName) p start1 end1 (length (stack st)) st
              in st1\<lparr>stack := take p (stack st1),
                      lastTag := (if p = 0 then None else Some (entryTag (stack st1 ! (p - 1))))\<rparr>)
         | None \<Rightarrow>
             if lowerCasedTagName = ''br'' then
               emit (optStart opts) (Start (String_of tagName) [] True start1 end1) st
             else if lowerCasedTagName = ''p'' then
               emit (optEnd opts) (End (String_of tagName) start1 end1)
                 (emit (optStart opts) (Start (String_of tagName) [] False start1 end1) st)
             else st)"

text \<open>
  What \<open>parseStartTag\<close> returns: \<open>{tagName, attrs, unarySlash, start, end}\<close>, each
  attribute as its name and the value the pattern captured.
\<close>

record StartTagMatch =
  tagName :: string
  matchAttrs :: "(string \<times> string) list"
  unarySlash :: bool
  matchStart :: nat
  matchEnd :: nat










definition handleStartTag :: "HTMLOptions \<Rightarrow> StartTagMatch \<Rightarrow> HTMLState \<Rightarrow> HTMLState" where
  "handleStartTag opts match st =
     (let name = tagName match;
          st1 = (if expectHTML opts then
                   (let sa = (if lastTag st = Some ''p'' \<and> isNonPhrasingTag opts name
                              then parseEndTag opts (lastTag st) None None st else st)
                    in if canBeLeftOpenTag opts name \<and> lastTag sa = Some name
                       then parseEndTag opts (Some name) None None sa else sa)
                 else st);
          unary = (isUnaryTag opts name \<or> unarySlash match);
          attrs = map (\<lambda>(nm, v).
                     (nm, decodeAttr v
                            (if name = ''a'' \<and> nm = ''href'' then shouldDecodeNewlinesForHref opts
                             else shouldDecodeNewlines opts)))
                    (matchAttrs match);
          st2 = (if \<not> unary
                 then st1\<lparr>stack := stack st1 @ [StackEntry name (toLowerCase name) attrs],
                          lastTag := Some name\<rparr>
                 else st1)
      in emit (optStart opts) (Start name attrs unary (matchStart match) (matchEnd match)) st2)"














lemma html_emit [simp]: "html (emit b ev st) = html st"
  by (simp add: emit_def)

lemma html_closeLoop [simp]: "html (closeLoop opts b pos s e n st) = html st"
  by (induction n arbitrary: st) auto

lemma html_parseEndTag [simp]: "html (parseEndTag opts t s e st) = html st"
  by (simp add: parseEndTag_def Let_def split: option.splits)

lemma html_handleStartTag [simp]: "html (handleStartTag opts m st) = html st"
  by (simp add: handleStartTag_def Let_def)

lemma html_advance [simp]: "html (advance n st) = drop n (html st)"
  by (simp add: advance_def)












section \<open>The abstract syntax tree\<close>

text \<open>
  The handler maps \<open>el.events\<close> and \<open>el.nativeEvents\<close> are built by \<open>addHandler\<close> and
  printed by \<open>genHandlers\<close> (helpers.js, events.js); here their type is left open.
\<close>

typedecl ASTElementHandlers

text \<open>\<open>el.model\<close>: the value, the callback and the expression.\<close>

datatype ASTModel = ASTModel string string string

text \<open>
  A directive occurrence. \<open>value\<close> is a string, empty when the attribute has no value;
  \<open>modifiers\<close> lists the keys of the modifier object, each mapped to \<open>true\<close>.
\<close>

record ASTDirective =
  name :: string
  rawName :: string
  value' :: string
  arg :: "string option"
  modifiers :: "string list option"

text \<open>
  The fields of an element other than its subtrees. An optional string is \<open>None\<close> when
  the field is \<open>undefined\<close>. \<open>el_for\<close>, \<open>el_alias\<close>, \<open>el_if\<close> and \<open>el_else\<close> are the fields
  \<open>for\<close>, \<open>alias\<close>, \<open>if\<close> and \<open>else\<close>. \<open>attrs\<close> and \<open>props\<close> hold name and value pairs.
\<close>

record ASTInfo =
  tag :: string
  attrsMap :: "string \<rightharpoonup> string"
  plain :: bool
  pre :: bool
  forbidden :: bool
  staticRoot :: bool
  staticInFor :: bool
  staticProcessed :: bool
  once :: bool
  onceProcessed :: bool
  el_for :: "string option"
  el_alias :: "string option"
  iterator1 :: "string option"
  iterator2 :: "string option"
  forProcessed :: bool
  el_if :: "string option"
  ifProcessed :: bool
  elseif :: "string option"
  el_else :: bool
  key :: "string option"
  ref :: "string option"
  refInFor :: bool
  component :: "string option"
  inlineTemplate :: bool
  slotName :: "string option"
  slotTarget :: "string option"
  slotScope :: "string option"
  directives :: "ASTDirective list option"
  attrs :: "(string \<times> string) list option"
  props :: "(string \<times> string) list option"
  events :: "ASTElementHandlers option"
  nativeEvents :: "ASTElementHandlers option"
  model :: "ASTModel option"
  wrapData :: "(string \<Rightarrow> string) option"
  wrapListeners :: "(string \<Rightarrow> string) option"

text \<open>
  The nodes that are not elements: \<open>{type: 2, expression, tokens, text}\<close> and
  \<open>{type: 3, text, isComment}\<close>.
\<close>

datatype ASTTextNode = ASTExpression string "token list" string | ASTText string bool

text \<open>
  An element owns its children, the branches of its conditional group and its scoped
  slots (in the order of \<open>Object.keys\<close>). The first branch that \<open>processIf\<close> adds to a
  group is the element itself (\<open>block: el\<close>); this alias is the block \<open>Self\<close>, and the
  tree holds every other element once. The model follows trees in which a group names its
  own element at most once, as the parser builds them.

  \<open>el.parent\<close> is not a field: the functions that read it take the list of the
  ancestors' fields, nearest first, as they are when the element is reached. The parent
  of a child and of a scoped slot is the element that holds it; the parent of a branch
  is the parent of the element that owns the group (\<open>createASTElement\<close> gives every
  element the parent that is current when its start tag is read).
\<close>

datatype ASTElement =
    ASTElement (info: ASTInfo) (children: "ASTNode list")
      (ifConditions: "(string option \<times> block) list option")
      (scopedSlots: "(string \<times> ASTElement) list option")
and ASTNode = Element ASTElement | TextNode ASTTextNode
and block = Self | Other ASTElement

definition blockElement :: "ASTElement \<Rightarrow> block \<Rightarrow> ASTElement" where
  "blockElement host b = (case b of Self \<Rightarrow> host | Other e \<Rightarrow> e)"

definition nodeText :: "ASTTextNode \<Rightarrow> string" where
  "nodeText n = (case n of ASTExpression e toks t \<Rightarrow> t | ASTText t c \<Rightarrow> t)"

definition isComment :: "ASTTextNode \<Rightarrow> bool" where
  "isComment n = (case n of ASTExpression e toks t \<Rightarrow> False | ASTText t c \<Rightarrow> c)"

definition sq :: string where "sq = [CHR 0x27]"
definition dq :: string where "dq = [CHR 0x22]"

section \<open>Code generator (part\_000)\<close>

text \<open>
  No function of the code generator throws but by reading a field of \<open>undefined\<close>:
  \<open>genInlineTemplate\<close> reads \<open>ast.type\<close> of the first child of an element that may have
  none, and \<open>genIf\<close> copies \<open>el.ifConditions\<close>. The exception leaves \<open>generate\<close>; it is the
  value \<open>Inl TypeError\<close>.
\<close>

datatype error = TypeError

type_synonym warning = "string \<times> bool"

type_synonym DirectiveFunction = "ASTInfo \<Rightarrow> ASTDirective \<Rightarrow> ASTInfo \<times> bool \<times> warning list"

record CompilerOptions =
  production :: bool
  isReservedTag :: "string \<Rightarrow> bool"
  transforms :: "(ASTElement \<Rightarrow> string \<Rightarrow> string) list"
  dataGenFns :: "(ASTElement \<Rightarrow> string) list"
  stateDirectives :: "string \<Rightarrow> DirectiveFunction option"
  genHandlers :: "ASTElementHandlers \<Rightarrow> bool \<Rightarrow> string"
  camelize :: "string \<Rightarrow> string"

record CodegenState =
  onceId :: nat
  staticRenderFns :: "string list"
  state_pre :: bool
  warned :: "warning list"

datatype CodegenResult = CodegenResult (render: string) (resultStaticRenderFns: "string list")

definition warn :: "string \<Rightarrow> bool \<Rightarrow> CodegenState \<Rightarrow> CodegenState" where
  "warn msg tip st = st\<lparr>warned := warned st @ [(msg, tip)]\<rparr>"

definition maybeComponent :: "CompilerOptions \<Rightarrow> ASTInfo \<Rightarrow> bool" where
  "maybeComponent opts i = (\<not> (isReservedTag opts (tag i) \<and> \<not> truthy (component i)))"

definition needsNormalization :: "ASTInfo \<Rightarrow> bool" where
  "needsNormalization i = (el_for i \<noteq> None \<or> tag i = ''template'' \<or> tag i = ''slot'')"

fun getNormalizationTypeLoop :: "CompilerOptions \<Rightarrow> ASTNode list \<Rightarrow> nat \<Rightarrow> nat" where
  "getNormalizationTypeLoop opts [] res = res"
| "getNormalizationTypeLoop opts (Element el # cs) res =
     (if needsNormalization (info el) \<or>
         (case ifConditions el of
            None \<Rightarrow> False
          | Some conds \<Rightarrow> list_ex (\<lambda>c. needsNormalization (info (blockElement el (snd c)))) conds)
      then 2
      else if maybeComponent opts (info el) \<or>
         (case ifConditions el of
            None \<Rightarrow> False
          | Some conds \<Rightarrow> list_ex (\<lambda>c. maybeComponent opts (info (blockElement el (snd c)))) conds)
      then getNormalizationTypeLoop opts cs 1
      else getNormalizationTypeLoop opts cs res)"
| "getNormalizationTypeLoop opts (_ # cs) res = getNormalizationTypeLoop opts cs res"

definition getNormalizationType :: "CompilerOptions \<Rightarrow> ASTNode list \<Rightarrow> nat" where
  "getNormalizationType opts cs = getNormalizationTypeLoop opts cs 0"

definition transformSpecialNewlines :: "string \<Rightarrow> string" where
  "transformSpecialNewlines s = s"

definition genText :: "ASTTextNode \<Rightarrow> string" where
  "genText n =
     ''_v('' @ (case n of
                 ASTExpression e toks t \<Rightarrow> e
               | ASTText t c \<Rightarrow> transformSpecialNewlines (JSON_stringify t)) @ '')''"

definition genComment :: "ASTTextNode \<Rightarrow> string" where
  "genComment n = ''_e('' @ JSON_stringify (nodeText n) @ '')''"

definition genProps :: "(string \<times> string) list \<Rightarrow> string" where
  "genProps ps =
     butlast (concat (map (\<lambda>(n, v). dq @ n @ dq @ '':'' @ transformSpecialNewlines v @ '','') ps))"

definition stringifyModifiers :: "string list \<Rightarrow> string" where
  "stringifyModifiers ms = ''{'' @ join '','' (map (\<lambda>m. JSON_stringify m @ '':true'') ms) @ ''}''"

definition genDirective :: "ASTDirective \<Rightarrow> string" where
  "genDirective dir =
     ''{name:'' @ dq @ name dir @ dq @ '',rawName:'' @ dq @ rawName dir @ dq @
     (if value' dir \<noteq> [] then '',value:('' @ value' dir @ ''),expression:'' @ JSON_stringify (value' dir) else [])
     @ (if truthy (arg dir) then '',arg:'' @ dq @ String_of (arg dir) @ dq else []) @
     (case modifiers dir of Some ms \<Rightarrow> '',modifiers:'' @ stringifyModifiers ms | None \<Rightarrow> []) @ ''},''"

fun genDirectivesLoop ::
  "CompilerOptions \<Rightarrow> ASTDirective list \<Rightarrow> string \<times> bool \<times> ASTInfo \<times> warning list
     \<Rightarrow> string \<times> bool \<times> ASTInfo \<times> warning list" where
  "genDirectivesLoop opts [] acc = acc"
| "genDirectivesLoop opts (dir # dirs) (res, hasRuntime, i, ws) =
     (let (i1, needRuntime, ws1) =
            (case stateDirectives opts (name dir) of
               Some gen \<Rightarrow> gen i dir
             | None \<Rightarrow> (i, True, []))
      in genDirectivesLoop opts dirs
           (if needRuntime then (res @ genDirective dir, True, i1, ws @ ws1)
            else (res, hasRuntime, i1, ws @ ws1)))"

definition genDirectives :: "CompilerOptions \<Rightarrow> ASTInfo \<Rightarrow> string option \<times> ASTInfo \<times> warning list" where
  "genDirectives opts i =
     (case directives i of
        None \<Rightarrow> (None, i, [])
      | Some dirs \<Rightarrow>
          (let (res, hasRuntime, i1, ws) = genDirectivesLoop opts dirs (''directives:['', False, i, [])
           in (if hasRuntime then Some (butlast res @ '']'') else None, i1, ws)))"

definition stripTrailingComma :: "string \<Rightarrow> string" where
  "stripTrailingComma s = (if s \<noteq> [] \<and> last s = CHR '','' then butlast s else s)"

fun findKey :: "ASTInfo list \<Rightarrow> string option" where
  "findKey [] = Some []"
| "findKey (parent # ps) = (if truthy (el_for parent) then key parent else findKey ps)"

definition singleFor :: "ASTNode list \<Rightarrow> ASTElement option" where
  "singleFor cs =
     (case cs of
        [Element el] \<Rightarrow>
          if truthy (el_for (info el)) \<and> tag (info el) \<noteq> ''template'' \<and> tag (info el) \<noteq> ''slot''
          then Some el else None
      | _ \<Rightarrow> None)"

definition forIterators :: "ASTInfo \<Rightarrow> string" where
  "forIterators i =
     (if truthy (iterator1 i) then '','' @ String_of (iterator1 i) else []) @
     (if truthy (iterator2 i) then '','' @ String_of (iterator2 i) else [])"

definition genDataHead :: "CompilerOptions \<Rightarrow> ASTElement \<Rightarrow> string option \<Rightarrow> string" where
  "genDataHead opts el dirs =
     (let i = info el in
      ''{'' @
      (if truthy dirs then String_of dirs @ '','' else []) @
      (if truthy (key i) then ''key:'' @ String_of (key i) @ '','' else []) @
      (if truthy (ref i) then ''ref:'' @ String_of (ref i) @ '','' else []) @
      (if refInFor i then ''refInFor:true,'' else []) @
      (if pre i then ''pre:true,'' else []) @
      (if truthy (component i) then ''tag:'' @ dq @ tag i @ dq @ '','' else []) @
      concat (map (\<lambda>f. f el) (dataGenFns opts)) @
      (case attrs i of Some as \<Rightarrow> ''attrs:{'' @ genProps as @ ''},'' | None \<Rightarrow> []) @
      (case props i of Some ps \<Rightarrow> ''domProps:{'' @ genProps ps @ ''},'' | None \<Rightarrow> []) @
      (case events i of Some ev \<Rightarrow> genHandlers opts ev False @ '','' | None \<Rightarrow> []) @
      (case nativeEvents i of Some ev \<Rightarrow> genHandlers opts ev True @ '','' | None \<Rightarrow> []) @
      (if truthy (slotTarget i) \<and> \<not> truthy (slotScope i) then ''slot:'' @ String_of (slotTarget i) @ '','' else []))"

definition genDataModel :: "ASTInfo \<Rightarrow> string" where
  "genDataModel i =
     (case model i of
        Some (ASTModel v callback expr) \<Rightarrow>
          ''model:{value:'' @ v @ '',callback:'' @ callback @ '',expression:'' @ expr @ ''},''
      | None \<Rightarrow> [])"

definition genDataWrap :: "ASTInfo \<Rightarrow> string \<Rightarrow> string" where
  "genDataWrap i data =
     (let data1 = (case wrapData i of Some f \<Rightarrow> f data | None \<Rightarrow> data)
      in (case wrapListeners i of Some f \<Rightarrow> f data1 | None \<Rightarrow> data1))"

definition genSlotTail :: "CompilerOptions \<Rightarrow> ASTInfo \<Rightarrow> string option \<Rightarrow> string" where
  "genSlotTail opts i chs =
     (let attrs' = (case attrs i of
                     Some as \<Rightarrow> Some (''{'' @ join '','' (map (\<lambda>(n, v). camelize opts n @ '':'' @ v) as) @ ''}'')
                   | None \<Rightarrow> None);
          bind = attrsMap i ''v-bind''
      in (if (truthy attrs' \<or> truthy bind) \<and> \<not> truthy chs then '',null'' else []) @
         (if truthy attrs' then '','' @ String_of attrs' else []) @
         (if truthy bind then (if truthy attrs' then [] else '',null'') @ '','' @ String_of bind else []) @
         '')'')"

function (sequential)
    genElement :: "CompilerOptions \<Rightarrow> ASTElement \<Rightarrow> ASTInfo list \<Rightarrow> CodegenState \<Rightarrow> error + string \<times> CodegenState"
and genStatic :: "CompilerOptions \<Rightarrow> ASTElement \<Rightarrow> ASTInfo list \<Rightarrow> CodegenState \<Rightarrow> error + string \<times> CodegenState"
and genOnce :: "CompilerOptions \<Rightarrow> ASTElement \<Rightarrow> ASTInfo list \<Rightarrow> CodegenState \<Rightarrow> error + string \<times> CodegenState"
and genIf :: "CompilerOptions \<Rightarrow> ASTElement \<Rightarrow> ASTInfo list \<Rightarrow> CodegenState \<Rightarrow> error + string \<times> CodegenState"
and genIfConditions :: "CompilerOptions \<Rightarrow> (string option \<times> block) list \<Rightarrow> ASTElement \<Rightarrow> ASTInfo list \<Rightarrow> CodegenState \<Rightarrow> error + string \<times> CodegenState"
and genFor :: "CompilerOptions \<Rightarrow> ASTElement \<Rightarrow> ASTInfo list \<Rightarrow> CodegenState \<Rightarrow> error + string \<times> CodegenState"
and genData :: "CompilerOptions \<Rightarrow> ASTElement \<Rightarrow> ASTInfo list \<Rightarrow> CodegenState \<Rightarrow> error + string \<times> ASTInfo \<times> CodegenState"
and genInlineTemplate :: "CompilerOptions \<Rightarrow> ASTElement \<Rightarrow> ASTInfo list \<Rightarrow> CodegenState \<Rightarrow> error + string option \<times> CodegenState"
and generate :: "CompilerOptions \<Rightarrow> ASTElement option \<Rightarrow> ASTInfo list \<Rightarrow> warning list \<Rightarrow> error + CodegenResult \<times> warning list"
and genScopedSlots :: "CompilerOptions \<Rightarrow> (string \<times> ASTElement) list \<Rightarrow> ASTInfo list \<Rightarrow> CodegenState \<Rightarrow> error + string \<times> CodegenState"
and genScopedSlotList :: "CompilerOptions \<Rightarrow> (string \<times> ASTElement) list \<Rightarrow> ASTInfo list \<Rightarrow> CodegenState \<Rightarrow> error + string list \<times> CodegenState"
and genScopedSlot :: "CompilerOptions \<Rightarrow> string \<Rightarrow> ASTElement \<Rightarrow> ASTInfo list \<Rightarrow> CodegenState \<Rightarrow> error + string \<times> CodegenState"
and genForScopedSlot :: "CompilerOptions \<Rightarrow> string \<Rightarrow> ASTElement \<Rightarrow> ASTInfo list \<Rightarrow> CodegenState \<Rightarrow> error + string \<times> CodegenState"
and genChildren :: "CompilerOptions \<Rightarrow> ASTElement \<Rightarrow> ASTInfo list \<Rightarrow> CodegenState \<Rightarrow> bool \<Rightarrow> error + string option \<times> CodegenState"
and genNodes :: "CompilerOptions \<Rightarrow> ASTNode list \<Rightarrow> ASTInfo list \<Rightarrow> CodegenState \<Rightarrow> error + string list \<times> CodegenState"
and genNode :: "CompilerOptions \<Rightarrow> ASTNode \<Rightarrow> ASTInfo list \<Rightarrow> CodegenState \<Rightarrow> error + string \<times> CodegenState"
and genSlot :: "CompilerOptions \<Rightarrow> ASTElement \<Rightarrow> ASTInfo list \<Rightarrow> CodegenState \<Rightarrow> error + string \<times> CodegenState"
and genComponent :: "CompilerOptions \<Rightarrow> string \<Rightarrow> ASTElement \<Rightarrow> ASTInfo list \<Rightarrow> CodegenState \<Rightarrow> error + string \<times> ASTInfo \<times> CodegenState"
where
  "genElement opts (ASTElement i0 cs conds slots) ctx st =
     (let i = (case ctx of [] \<Rightarrow> i0 | parent # _ \<Rightarrow> i0\<lparr>pre := pre i0 \<or> pre parent\<rparr>);
          el = ASTElement i cs conds slots
      in if staticRoot i \<and> \<not> staticProcessed i then genStatic opts el ctx st
         else if once i \<and> \<not> onceProcessed i then genOnce opts el ctx st
         else if truthy (el_for i) \<and> \<not> forProcessed i then genFor opts el ctx st
         else if truthy (el_if i) \<and> \<not> ifProcessed i then genIf opts el ctx st
         else if tag i = ''template'' \<and> \<not> truthy (slotTarget i) \<and> \<not> state_pre st then
           (case genChildren opts el ctx st False of
              Inl e \<Rightarrow> Inl e
            | Inr (chs, st1) \<Rightarrow> Inr (or_default chs ''void 0'', st1))
         else if tag i = ''slot'' then genSlot opts el ctx st
         else
           (case
              (if truthy (component i) then genComponent opts (String_of (component i)) el ctx st
               else
                 (case (if \<not> plain i \<or> (pre i \<and> maybeComponent opts i)
                        then (case genData opts el ctx st of
                                Inl e \<Rightarrow> Inl e
                              | Inr (d, i1, st1) \<Rightarrow> Inr (Some d, i1, st1))
                        else Inr (None, i, st)) of
                    Inl e \<Rightarrow> Inl e
                  | Inr (data, i1, st1) \<Rightarrow>
                      (case (if inlineTemplate i1 then Inr (None, st1)
                             else genChildren opts (ASTElement i1 cs conds slots) ctx st1 True) of
                         Inl e \<Rightarrow> Inl e
                       | Inr (chs, st2) \<Rightarrow>
                           Inr (''_c('' @ sq @ tag i1 @ sq @
                                  (if truthy data then '','' @ String_of data else []) @
                                  (if truthy chs then '','' @ String_of chs else []) @ '')'',
                                i1, st2)))) of
              Inl e \<Rightarrow> Inl e
            | Inr (code, i1, st1) \<Rightarrow>
                Inr (foldl (\<lambda>code t. t (ASTElement i1 cs conds slots) code) code (transforms opts), st1)))"
| "genStatic opts (ASTElement i0 cs conds slots) ctx st =
     (let i = i0\<lparr>staticProcessed := True\<rparr>;
          originalPreState = state_pre st;
          st0 = (if pre i then st\<lparr>state_pre := pre i\<rparr> else st)
      in case genElement opts (ASTElement i cs conds slots) ctx st0 of
           Inl e \<Rightarrow> Inl e
         | Inr (code, st1) \<Rightarrow>
             (let st2 = st1\<lparr>staticRenderFns := staticRenderFns st1 @ [''with(this){return '' @ code @ ''}'']\<rparr>;
                  st3 = st2\<lparr>state_pre := originalPreState\<rparr>
              in Inr (''_m('' @ String_of_nat (length (staticRenderFns st3) - 1) @
                        (if staticInFor i then '',true'' else []) @ '')'', st3)))"
| "genOnce opts (ASTElement i0 cs conds slots) ctx st =
     (let i = i0\<lparr>onceProcessed := True\<rparr>;
          el = ASTElement i cs conds slots
      in if truthy (el_if i) \<and> \<not> ifProcessed i then genIf opts el ctx st
         else if staticInFor i then
           (let key' = findKey ctx
            in if \<not> truthy key' then
                 genElement opts el ctx
                   (if \<not> production opts
                    then warn ''v-once can only be used inside v-for that is keyed. '' False st
                    else st)
               else
                 (case genElement opts el ctx st of
                    Inl e \<Rightarrow> Inl e
                  | Inr (code, st1) \<Rightarrow>
                      Inr (''_o('' @ code @ '','' @ String_of_nat (onceId st1) @ '','' @ String_of key' @ '')'',
                           st1\<lparr>onceId := onceId st1 + 1\<rparr>)))
         else genStatic opts el ctx st)"
| "genIf opts (ASTElement i0 cs conds slots) ctx st =
     (let i = i0\<lparr>ifProcessed := True\<rparr>
      in case conds of
           None \<Rightarrow> Inl TypeError
         | Some conditions \<Rightarrow> genIfConditions opts conditions (ASTElement i cs conds slots) ctx st)"
| "genIfConditions opts [] host ctx st = Inr (''_e()'', st)"
| "genIfConditions opts ((exp, blk) # conditions) host ctx st =
     (let el = blockElement host blk;
          genTernaryExp = (if once (info el) then genOnce opts el ctx st else genElement opts el ctx st)
      in if truthy exp then
           (case genTernaryExp of
              Inl e \<Rightarrow> Inl e
            | Inr (code, st1) \<Rightarrow>
                (case genIfConditions opts conditions host ctx st1 of
                   Inl e \<Rightarrow> Inl e
                 | Inr (rest, st2) \<Rightarrow> Inr (''('' @ String_of exp @ '')?'' @ code @ '':'' @ rest, st2)))
         else genTernaryExp)"
| "genFor opts (ASTElement i0 cs conds slots) ctx st =
     (let exp = el_for i0;
          alias = el_alias i0;
          st1 = (if \<not> production opts \<and> maybeComponent opts i0 \<and> tag i0 \<noteq> ''slot'' \<and>
                    tag i0 \<noteq> ''template'' \<and> \<not> truthy (key i0)
                 then warn (''<'' @ tag i0 @ '' v-for='' @ dq @ String_of alias @ '' in '' @ String_of exp @ dq @
                            ''>: component lists rendered with v-for should have explicit keys. '' @
                            ''See https://vuejs.org/guide/list.html#key for more info.'') True st
                 else st);
          i = i0\<lparr>forProcessed := True\<rparr>
      in case genElement opts (ASTElement i cs conds slots) ctx st1 of
           Inl e \<Rightarrow> Inl e
         | Inr (code, st2) \<Rightarrow>
             Inr (''_l(('' @ String_of exp @ ''),function('' @ String_of alias @ forIterators i0 @
                  ''){return '' @ code @ ''})'', st2))"
| "genData opts (ASTElement i0 cs conds slots) ctx st =
     (let (dirs, i, ws) = genDirectives opts i0;
          st1 = st\<lparr>warned := warned st @ ws\<rparr>;
          el = ASTElement i cs conds slots;
          data = genDataHead opts el dirs
      in case (case slots of
                 Some sl \<Rightarrow>
                   (case genScopedSlots opts sl (i # ctx) st1 of
                      Inl e \<Rightarrow> Inl e
                    | Inr (code, st2) \<Rightarrow> Inr (code @ '','', st2))
               | None \<Rightarrow> Inr ([], st1)) of
           Inl e \<Rightarrow> Inl e
         | Inr (slotsCode, st2) \<Rightarrow>
             (case (if inlineTemplate i then genInlineTemplate opts el ctx st2 else Inr (None, st2)) of
                Inl e \<Rightarrow> Inl e
              | Inr (inlineTemplate', st3) \<Rightarrow>
                  Inr (genDataWrap i
                         (stripTrailingComma
                            (data @ slotsCode @ genDataModel i @
                             (if truthy inlineTemplate' then String_of inlineTemplate' @ '','' else [])) @ ''}''),
                       i, st3)))"
| "genInlineTemplate opts (ASTElement i cs conds slots) ctx st =
     (case cs of
        [] \<Rightarrow> Inl TypeError
      | ast # rest \<Rightarrow>
          (let st1 = (if \<not> production opts \<and> (rest \<noteq> [] \<or> (case ast of Element a \<Rightarrow> False | _ \<Rightarrow> True))
                      then warn ''Inline-template components must have exactly one child element.'' False st
                      else st)
           in case ast of
                Element a \<Rightarrow>
                  (case generate opts (Some a) (i # ctx) (warned st1) of
                     Inl e \<Rightarrow> Inl e
                   | Inr (inlineRenderFns, ws) \<Rightarrow>
                       Inr (Some (''inlineTemplate:{render:function(){'' @ render inlineRenderFns @
                                  ''},staticRenderFns:['' @
                                  join '','' (map (\<lambda>code. ''function(){'' @ code @ ''}'')
                                                (resultStaticRenderFns inlineRenderFns)) @ '']}''),
                            st1\<lparr>warned := ws\<rparr>))
              | TextNode t \<Rightarrow> Inr (None, st1)))"
| "generate opts ast ctx ws =
     (let state = \<lparr>onceId = 0, staticRenderFns = [], state_pre = False, warned = ws\<rparr>
      in case (case ast of
                 Some a \<Rightarrow> genElement opts a ctx state
               | None \<Rightarrow> Inr (''_c('' @ dq @ ''div'' @ dq @ '')'', state)) of
           Inl e \<Rightarrow> Inl e
         | Inr (code, st1) \<Rightarrow>
             Inr (CodegenResult (''with(this){return '' @ code @ ''}'') (staticRenderFns st1), warned st1))"
| "genScopedSlots opts sl ctx st =
     (case genScopedSlotList opts sl ctx st of
        Inl e \<Rightarrow> Inl e
      | Inr (codes, st1) \<Rightarrow> Inr (''scopedSlots:_u(['' @ join '','' codes @ ''])'', st1))"
| "genScopedSlotList opts [] ctx st = Inr ([], st)"
| "genScopedSlotList opts ((k, el) # sl) ctx st =
     (case genScopedSlot opts k el ctx st of
        Inl e \<Rightarrow> Inl e
      | Inr (code, st1) \<Rightarrow>
          (case genScopedSlotList opts sl ctx st1 of
             Inl e \<Rightarrow> Inl e
           | Inr (codes, st2) \<Rightarrow> Inr (code # codes, st2)))"
| "genScopedSlot opts k (ASTElement i cs conds slots) ctx st =
     (if truthy (el_for i) \<and> \<not> forProcessed i then genForScopedSlot opts k (ASTElement i cs conds slots) ctx st
      else
        (case (if tag i = ''template'' then
                 (case genChildren opts (ASTElement i cs conds slots) ctx st False of
                    Inl e \<Rightarrow> Inl e
                  | Inr (chs, st1) \<Rightarrow>
                      Inr (if truthy (el_if i)
                           then String_of (el_if i) @ ''?'' @ or_default chs ''undefined'' @ '':undefined''
                           else or_default chs ''undefined'', st1))
               else genElement opts (ASTElement i cs conds slots) ctx st) of
           Inl e \<Rightarrow> Inl e
         | Inr (body, st1) \<Rightarrow>
             Inr (''{key:'' @ k @ '',fn:function('' @ String_of (slotScope i) @ ''){return '' @ body @ ''}}'', st1)))"
| "genForScopedSlot opts k (ASTElement i0 cs conds slots) ctx st =
     (let exp = el_for i0;
          alias = el_alias i0;
          i = i0\<lparr>forProcessed := True\<rparr>
      in case genScopedSlot opts k (ASTElement i cs conds slots) ctx st of
           Inl e \<Rightarrow> Inl e
         | Inr (code, st1) \<Rightarrow>
             Inr (''_l(('' @ String_of exp @ ''),function('' @ String_of alias @ forIterators i0 @
                  ''){return '' @ code @ ''})'', st1))"
| "genChildren opts (ASTElement i cs conds slots) ctx st checkSkip =
     (if cs = [] then Inr (None, st)
      else
        (case singleFor cs of
           Some el \<Rightarrow>
             (let normalizationType = (if maybeComponent opts (info el) then '',1'' else [])
              in case genElement opts el (i # ctx) st of
                   Inl e \<Rightarrow> Inl e
                 | Inr (code, st1) \<Rightarrow> Inr (Some (code @ normalizationType), st1))
         | None \<Rightarrow>
             (let normalizationType = (if checkSkip then getNormalizationType opts cs else 0)
              in case genNodes opts cs (i # ctx) st of
                   Inl e \<Rightarrow> Inl e
                 | Inr (codes, st1) \<Rightarrow>
                     Inr (Some (''['' @ join '','' codes @ '']'' @
                                (if normalizationType \<noteq> 0 then '','' @ String_of_nat normalizationType else [])),
                          st1))))"
| "genNodes opts [] ctx st = Inr ([], st)"
| "genNodes opts (c # cs) ctx st =
     (case genNode opts c ctx st of
        Inl e \<Rightarrow> Inl e
      | Inr (code, st1) \<Rightarrow>
          (case genNodes opts cs ctx st1 of
             Inl e \<Rightarrow> Inl e
           | Inr (codes, st2) \<Rightarrow> Inr (code # codes, st2)))"
| "genNode opts (Element el) ctx st = genElement opts el ctx st"
| "genNode opts (TextNode t) ctx st = Inr (if isComment t then genComment t else genText t, st)"
| "genSlot opts (ASTElement i cs conds slots) ctx st =
     (let slotName' = (if truthy (slotName i) then String_of (slotName i) else dq @ ''default'' @ dq)
      in case genChildren opts (ASTElement i cs conds slots) ctx st False of
           Inl e \<Rightarrow> Inl e
         | Inr (chs, st1) \<Rightarrow>
             Inr (''_t('' @ slotName' @ (if truthy chs then '','' @ String_of chs else []) @
                  genSlotTail opts i chs, st1))"
| "genComponent opts componentName (ASTElement i cs conds slots) ctx st =
     (case (if inlineTemplate i then Inr (None, st)
            else genChildren opts (ASTElement i cs conds slots) ctx st True) of
        Inl e \<Rightarrow> Inl e
      | Inr (chs, st1) \<Rightarrow>
          (case genData opts (ASTElement i cs conds slots) ctx st1 of
             Inl e \<Rightarrow> Inl e
           | Inr (data, i1, st2) \<Rightarrow>
               Inr (''_c('' @ componentName @ '','' @ data @
                    (if truthy chs then '','' @ String_of chs else []) @ '')'', i1, st2)))"
  by pat_completeness auto


definition pending :: "ASTInfo \<Rightarrow> nat" where
  "pending i =
     (if staticProcessed i then 0 else 1) + (if onceProcessed i then 0 else 1) +
     (if forProcessed i then 0 else 1) + (if ifProcessed i then 0 else 1)"

definition gen_measure where
  "gen_measure =
     case_sum
      (case_sum
        (case_sum
          (case_sum
            (\<lambda>(opts, e, ctx, st). (size (e::ASTElement), 10 * pending (info e) + 3, 0::nat))
            (\<lambda>(opts, e, ctx, st). (size (e::ASTElement), 10 * pending ((info e)\<lparr>staticProcessed := True\<rparr>) + 5, 0)))
          (case_sum
            (\<lambda>(opts, e, ctx, st). (size (e::ASTElement), 10 * pending ((info e)\<lparr>onceProcessed := True\<rparr>) + 6, 0))
            (\<lambda>(opts, e, ctx, st). (size (e::ASTElement), 10 * pending ((info e)\<lparr>ifProcessed := True\<rparr>) + 8, 0))))
        (case_sum
          (case_sum
            (\<lambda>(opts, conditions, host, ctx, st).
               (max (size (host::ASTElement))
                  (Suc (size_list (size_prod (\<lambda>x. 0) size) (conditions::(string option \<times> block) list))),
                10 * pending (info host) + 7, length conditions))
            (\<lambda>(opts, e, ctx, st). (size (e::ASTElement), 10 * pending ((info e)\<lparr>forProcessed := True\<rparr>) + 4, 0)))
          (case_sum
            (\<lambda>(opts, e, ctx, st). (size (e::ASTElement), 1, 0))
            (case_sum
              (\<lambda>(opts, e, ctx, st). (size (e::ASTElement), 0, 0))
              (\<lambda>(opts, ast, ctx, ws). ((case ast of Some (a::ASTElement) \<Rightarrow> Suc (size a) | None \<Rightarrow> 0), 0, 0))))))
      (case_sum
        (case_sum
          (case_sum
            (\<lambda>(opts, sl, ctx, st). (Suc (size_list (size_prod (\<lambda>x. 0) size) (sl::(string \<times> ASTElement) list)), 0, 0))
            (\<lambda>(opts, sl, ctx, st). (size_list (size_prod (\<lambda>x. 0) size) (sl::(string \<times> ASTElement) list), 0, 0)))
          (case_sum
            (\<lambda>(opts, k, e, ctx, st). (size (e::ASTElement), 10 * pending (info e) + 9, 0))
            (\<lambda>(opts, k, e, ctx, st). (size (e::ASTElement), 10 * pending ((info e)\<lparr>forProcessed := True\<rparr>) + 10, 0))))
        (case_sum
          (case_sum
            (\<lambda>(opts, e, ctx, st, checkSkip). (size (e::ASTElement), 0, 0))
            (\<lambda>(opts, cs, ctx, st). (size_list size (cs::ASTNode list), 0, 0)))
          (case_sum
            (\<lambda>(opts, n, ctx, st). (size (n::ASTNode), 0, 0))
            (case_sum
              (\<lambda>(opts, e, ctx, st). (size (e::ASTElement), 1, 0))
              (\<lambda>(opts, componentName, e, ctx, st). (size (e::ASTElement), 2, 0))))))"

lemma singleFor_Some: "singleFor cs = Some el \<Longrightarrow> cs = [Element el]"
  by (auto simp: singleFor_def split: list.splits ASTNode.splits if_splits)

termination genElement
  apply (relation "inv_image (less_than <*lex*> less_than <*lex*> less_than) gen_measure")
  apply (intro wf_inv_image wf_lex_prod wf_less_than)
  apply (simp_all add: gen_measure_def)
  apply (auto simp: pending_def blockElement_def split: list.splits block.splits dest!: singleFor_Some)
  done



section \<open>AST builder (part\_001)\<close>

text \<open>
  The diagnostics of the builder go to \<open>warn\<close> (\<open>options.warn || baseWarn\<close>); they are
  collected in a list, each with its tip flag. The flag \<open>isProduction\<close> is
  \<open>process.env.NODE_ENV === 'production'\<close>.
\<close>

definition addIfCondition :: "ASTElement \<Rightarrow> string option \<times> block \<Rightarrow> ASTElement" where
  "addIfCondition el condition =
     (case el of
        ASTElement i cs conds slots \<Rightarrow>
          ASTElement i cs (Some ((case conds of None \<Rightarrow> [] | Some l \<Rightarrow> l) @ [condition])) slots)"

text \<open>
  \<open>findPrevElement(children)\<close>: from the end, the first element; every node passed on
  the way is popped. The result is what is returned, the array as it is left, and the
  diagnostics.
\<close>

function findPrevElement ::
  "bool \<Rightarrow> ASTNode list \<Rightarrow> warning list \<Rightarrow> ASTElement option \<times> ASTNode list \<times> warning list" where
  "findPrevElement isProduction cs ws =
     (if cs = [] then (None, cs, ws)
      else
        (case last cs of
           Element el \<Rightarrow> (Some el, cs, ws)
         | TextNode t \<Rightarrow>
             findPrevElement isProduction (butlast cs)
               (if \<not> isProduction \<and> nodeText t \<noteq> '' ''
                then ws @ [(''text '' @ dq @ trim (nodeText t) @ dq @
                            '' between v-if and v-else(-if) will be ignored.'', False)]
                else ws)))"
  by pat_completeness auto
termination
  by (relation "measure (\<lambda>(isProduction, cs, ws). length cs)") auto

declare findPrevElement.simps [simp del]

text \<open>
  \<open>processIfConditions(el, parent)\<close>. The element found is the last child left, so
  adding the branch to it changes that child of the parent.
\<close>

definition processIfConditions ::
  "bool \<Rightarrow> ASTElement \<Rightarrow> ASTElement \<Rightarrow> warning list \<Rightarrow> ASTElement \<times> warning list" where
  "processIfConditions isProduction el parent ws =
     (case parent of
        ASTElement pi pcs pconds pslots \<Rightarrow>
          (let (prev, cs1, ws1) = findPrevElement isProduction pcs ws
           in case prev of
                Some p \<Rightarrow>
                  if truthy (el_if (info p)) then
                    (ASTElement pi (butlast cs1 @ [Element (addIfCondition p (elseif (info el), Other el))])
                       pconds pslots, ws1)
                  else
                    (ASTElement pi cs1 pconds pslots,
                     if \<not> isProduction
                     then ws1 @ [(''v-'' @ (if truthy (elseif (info el))
                                            then ''else-if='' @ dq @ String_of (elseif (info el)) @ dq
                                            else ''else'') @
                                  '' used on element <'' @ tag (info el) @ ''> without corresponding v-if.'',
                                  False)]
                     else ws1)
              | None \<Rightarrow>
                  (ASTElement pi cs1 pconds pslots,
                   if \<not> isProduction
                   then ws1 @ [(''v-'' @ (if truthy (elseif (info el))
                                          then ''else-if='' @ dq @ String_of (elseif (info el)) @ dq
                                          else ''else'') @
                                '' used on element <'' @ tag (info el) @ ''> without corresponding v-if.'',
                                False)]
                   else ws1)))"

text \<open>\<open>scopedSlots[name] = element\<close>: a key that is there keeps its place.\<close>

fun setSlot :: "string \<Rightarrow> ASTElement \<Rightarrow> (string \<times> ASTElement) list \<Rightarrow> (string \<times> ASTElement) list" where
  "setSlot k el [] = [(k, el)]"
| "setSlot k el ((k', el') # sl) = (if k' = k then (k, el) # sl else (k', el') # setSlot k el sl)"

text \<open>
  The block \<open>if (currentParent && !element.forbidden) { ... }\<close> of the \<open>start\<close> callback of
  \<open>parse\<close>, which puts the new element into the tree: as a branch of a conditional
  group, as a scoped slot of the parent, or as its last child. The result is the parent
  as it is left, and the diagnostics.
\<close>

definition insertElement ::
  "bool \<Rightarrow> ASTElement \<Rightarrow> ASTElement option \<Rightarrow> warning list \<Rightarrow> ASTElement option \<times> warning list" where
  "insertElement isProduction element currentParent ws =
     (case currentParent of
        None \<Rightarrow> (None, ws)
      | Some parent \<Rightarrow>
          if forbidden (info element) then (Some parent, ws)
          else if truthy (elseif (info element)) \<or> el_else (info element) then
            (let (parent', ws') = processIfConditions isProduction element parent ws
             in (Some parent', ws'))
          else if truthy (slotScope (info element)) then
            (case parent of
               ASTElement pi pcs pconds pslots \<Rightarrow>
                 (let name' = or_default (slotTarget (info element)) (dq @ ''default'' @ dq)
                  in (Some (ASTElement (pi\<lparr>plain := False\<rparr>) pcs pconds
                             (Some (setSlot name' element (case pslots of None \<Rightarrow> [] | Some sl \<Rightarrow> sl)))),
                      ws)))
          else
            (case parent of
               ASTElement pi pcs pconds pslots \<Rightarrow>
                 (Some (ASTElement pi (pcs @ [Element element]) pconds pslots), ws)))"

text \<open>
  \<open>createASTElement(tag, attrs, parent)\<close>: every field but the tag and the attribute map
  is \<open>undefined\<close>, there are no children. Of a name that occurs twice the map keeps the
  last value.
\<close>

definition createASTElement :: "string \<Rightarrow> (string \<times> string) list \<Rightarrow> ASTElement" where
  "createASTElement t ats =
     ASTElement
       \<lparr>tag = t, attrsMap = map_of (rev ats), plain = False, pre = False, forbidden = False,
        staticRoot = False, staticInFor = False, staticProcessed = False, once = False,
        onceProcessed = False, el_for = None, el_alias = None, iterator1 = None, iterator2 = None,
        forProcessed = False, el_if = None, ifProcessed = False, elseif = None, el_else = False,
        key = None, ref = None, refInFor = False, component = None, inlineTemplate = False,
        slotName = None, slotTarget = None, slotScope = None, directives = None, attrs = None,
        props = None, events = None, nativeEvents = None, model = None, wrapData = None,
        wrapListeners = None\<rparr>
       [] None None"




section \<open>Properties of the text parser\<close>















definition properLines :: "string \<Rightarrow> bool" where
  "properLines g = (\<forall>k < length g. g ! k = CHR 0x0D \<longrightarrow> Suc k < length g \<and> g ! Suc k = CHR 0x0A)"





lemma properLines_Nil [simp]: "properLines []"
  by (simp add: properLines_def)


lemma properLines_noCR: "CHR 0x0D \<notin> set g \<Longrightarrow> properLines g"
  by (auto simp: properLines_def dest: nth_mem)




















section \<open>Properties of the tokenizer\<close>

text \<open>
  The open tags of a sequence of calls, innermost first: a start call of a tag that is
  not unary opens it, an end call closes the innermost open tag and must name it.
  \<open>None\<close> when an end call does not name the innermost open tag.
\<close>

fun openTags :: "Event list \<Rightarrow> string list \<Rightarrow> string list option" where
  "openTags [] opened = Some opened"
| "openTags (Start t as unary s e # evs) opened =
     openTags evs (if unary then opened else t # opened)"
| "openTags (End t s e # evs) opened =
     (case opened of
        [] \<Rightarrow> None
      | t' # rest \<Rightarrow> if t' = t then openTags evs rest else None)"
| "openTags (_ # evs) opened = openTags evs opened"





text \<open>The tags the tokenizer holds open are the open tags of the calls it has made.\<close>

definition tracked :: "HTMLState \<Rightarrow> bool" where
  "tracked st = (openTags (emitted st) [] = Some (rev (map entryTag (stack st))))"

lemma stack_emit [simp]: "stack (emit b ev st) = stack st"
  and lastTag_emit [simp]: "lastTag (emit b ev st) = lastTag st"
  and index_emit [simp]: "index (emit b ev st) = index st"
  by (simp_all add: emit_def)

lemma emitted_emit: "emitted (emit b ev st) = emitted st @ (if b then [ev] else [])"
  by (simp add: emit_def)

lemma closeLoop_frame [simp]:
  "stack (closeLoop opts b pos s e n st) = stack st"
  "lastTag (closeLoop opts b pos s e n st) = lastTag st"
  "index (closeLoop opts b pos s e n st) = index st"
  by (induction n arbitrary: st) auto





lemma findPos_None: "findPos stk l n = None \<longleftrightarrow> (\<forall>i<n. lowerCasedTag (stk ! i) \<noteq> l)"
  by (induction n) (auto simp: less_Suc_eq)





lemma tracked_cong: "stack st1 = stack st \<Longrightarrow> emitted st1 = emitted st \<Longrightarrow> tracked st1 = tracked st"
  by (simp add: tracked_def)

lemma tracked_advance [simp]: "tracked (advance n st) = tracked st"
  by (simp add: tracked_def advance_def)








lemma stack_parseEndTag_None: "stack (parseEndTag opts None s e st) = []"
  by (simp add: parseEndTag_def truthy_def Let_def)

text \<open>Options for the examples: a development build, every callback given.\<close>

definition exampleHTMLOptions :: HTMLOptions where
  "exampleHTMLOptions =
     \<lparr>NODE_ENV_production = False, expectHTML = True,
      isUnaryTag = (\<lambda>t. t \<in> {''br'', ''hr'', ''img'', ''input''}),
      canBeLeftOpenTag = (\<lambda>t. t \<in> {''li'', ''p'', ''td''}),
      isNonPhrasingTag = (\<lambda>t. t \<in> {''div'', ''ul'', ''table''}),
      shouldKeepComment = False, shouldDecodeNewlines = False, shouldDecodeNewlinesForHref = False,
      optStart = True, optEnd = True, optChars = True, optWarn = True\<rparr>"

definition exampleHTMLState :: HTMLState where
  "exampleHTMLState =
     \<lparr>html = ''rest'', index = 12, stack = [StackEntry ''div'' ''div'' [], StackEntry ''SPAN'' ''span'' []],
      lastTag = Some ''SPAN'', emitted = []\<rparr>"

text \<open>
  Claim C6 as written fails. The code tests for the one name \<open>br\<close>, not for the void
  elements: the stray end tag of \<open>img\<close>, a void element and unary for the options, makes no
  call at all.
\<close>

theorem parseEndTag_counterexample:
  "isUnaryTag exampleHTMLOptions ''img'' \<and>
   list_all (\<lambda>entry. lowerCasedTag entry \<noteq> toLowerCase ''img'') (stack exampleHTMLState) \<and>
   emitted (parseEndTag exampleHTMLOptions (Some ''img'') (Some 5) (Some 10) exampleHTMLState) = [] \<and>
   stack (parseEndTag exampleHTMLOptions (Some ''img'') (Some 5) (Some 10) exampleHTMLState) =
     stack exampleHTMLState"
proof -
  have l: "toLowerCase ''img'' = ''img''" by code_simp
  have f: "findPos (stack exampleHTMLState) ''img'' (length (stack exampleHTMLState)) = None"
    by (simp add: findPos_None exampleHTMLState_def less_Suc_eq_0_disj)
  show ?thesis
    by (simp add: l f parseEndTag_def truthy_def String_of_def Let_def exampleHTMLOptions_def)
      (simp add: exampleHTMLState_def)
qed

text \<open>
  Claim C6, amended. An end tag whose lower-cased name is the lower-cased name of no
  entry of the stack leaves the stack and \<open>lastTag\<close> as they are and makes no end call,
  with two exceptions, which leave the stack alone as well: for the name \<open>br\<close>, the one
  name the code tests for, whatever the options hold to be unary, one start call with
  the unary flag set and no end call; for the name \<open>p\<close> one start call, not unary,
  followed at once by one end call. The stray end tag of any other void element is passed
  over like any other. A callback that the options do not give is not called.
\<close>

theorem parseEndTag_stray:
  assumes "t \<noteq> []"
    and "\<forall>entry \<in> set (stack st). lowerCasedTag entry \<noteq> toLowerCase t"
    and "s = (case start of None \<Rightarrow> index st | Some x \<Rightarrow> x)"
    and "e = (case end' of None \<Rightarrow> index st | Some x \<Rightarrow> x)"
  shows "stack (parseEndTag opts (Some t) start end' st) = stack st \<and>
         lastTag (parseEndTag opts (Some t) start end' st) = lastTag st \<and>
         emitted (parseEndTag opts (Some t) start end' st) =
           emitted st @
           (if toLowerCase t = ''br'' then (if optStart opts then [Start t [] True s e] else [])
            else if toLowerCase t = ''p'' then
              (if optStart opts then [Start t [] False s e] else []) @
              (if optEnd opts then [End t s e] else [])
            else [])"
proof -
  have "findPos (stack st) (toLowerCase t) (length (stack st)) = None"
    using assms(2) by (simp add: findPos_None)
  with assms(1,3,4) show ?thesis
    by (simp add: parseEndTag_def truthy_def String_of_def Let_def emitted_emit)
qed

theorem parseEndTag_stray_witness:
  "emitted (parseEndTag exampleHTMLOptions (Some ''BR'') (Some 5) (Some 10) exampleHTMLState) =
     [Start ''BR'' [] True 5 10] \<and>
   emitted (parseEndTag exampleHTMLOptions (Some ''p'') None None exampleHTMLState) =
     [Start ''p'' [] False 12 12, End ''p'' 12 12] \<and>
   emitted (parseEndTag exampleHTMLOptions (Some ''hr'') (Some 5) (Some 10) exampleHTMLState) = [] \<and>
   stack (parseEndTag exampleHTMLOptions (Some ''hr'') (Some 5) (Some 10) exampleHTMLState) =
     stack exampleHTMLState"
proof -
  have l: "toLowerCase ''BR'' = ''br''" "toLowerCase ''p'' = ''p''" "toLowerCase ''hr'' = ''hr''"
    by code_simp+
  have n: "''br'' \<noteq> ''p''" "''hr'' \<noteq> ''br''" "''hr'' \<noteq> ''p''" "''p'' \<noteq> ''br''"
    by simp_all
  have s: "stack exampleHTMLState = [StackEntry ''div'' ''div'' [], StackEntry ''SPAN'' ''span'' []]"
    "index exampleHTMLState = 12" "emitted exampleHTMLState = []"
    by (simp_all add: exampleHTMLState_def)
  have o: "optStart exampleHTMLOptions" "optEnd exampleHTMLOptions"
    by (simp_all add: exampleHTMLOptions_def)
  have a: "\<forall>entry \<in> set (stack exampleHTMLState). lowerCasedTag entry \<noteq> toLowerCase ''BR''"
    "\<forall>entry \<in> set (stack exampleHTMLState). lowerCasedTag entry \<noteq> toLowerCase ''p''"
    "\<forall>entry \<in> set (stack exampleHTMLState). lowerCasedTag entry \<noteq> toLowerCase ''hr''"
    unfolding l s by simp_all
  have "emitted (parseEndTag exampleHTMLOptions (Some ''BR'') (Some 5) (Some 10) exampleHTMLState) =
     [Start ''BR'' [] True 5 10]"
    using parseEndTag_stray [OF _ a(1), of 5 "Some 5" 10 "Some 10" exampleHTMLOptions]
    unfolding l by (simp add: s o)
  moreover have "emitted (parseEndTag exampleHTMLOptions (Some ''p'') None None exampleHTMLState) =
     [Start ''p'' [] False 12 12, End ''p'' 12 12]"
  proof -
    have i: "12 = (case None of None \<Rightarrow> index exampleHTMLState | Some x \<Rightarrow> x)"
      by (simp add: s)
    from parseEndTag_stray [OF _ a(2) i i, of exampleHTMLOptions] show ?thesis
      unfolding l by (simp add: s(3) o)
  qed
  moreover have "emitted (parseEndTag exampleHTMLOptions (Some ''hr'') (Some 5) (Some 10) exampleHTMLState) = [] \<and>
   stack (parseEndTag exampleHTMLOptions (Some ''hr'') (Some 5) (Some 10) exampleHTMLState) =
     stack exampleHTMLState"
    using parseEndTag_stray [OF _ a(3), of 5 "Some 5" 10 "Some 10" exampleHTMLOptions]
    unfolding l by (simp add: s)
  ultimately show ?thesis by simp
qed




section \<open>Properties of the AST builder\<close>

definition isTextNode :: "ASTNode \<Rightarrow> bool" where
  "isTextNode n = (case n of Element el \<Rightarrow> False | TextNode t \<Rightarrow> True)"





lemma isTextNode_simps [simp]:
  "isTextNode (Element el) = False" "isTextNode (TextNode t) = True"
  by (simp_all add: isTextNode_def)

















section \<open>Properties of the code generator\<close>

declare genElement.simps [simp del] genStatic.simps [simp del] genOnce.simps [simp del]
  genIf.simps [simp del] genIfConditions.simps [simp del] genFor.simps [simp del]
  genData.simps [simp del] genInlineTemplate.simps [simp del] generate.simps [simp del]
  genScopedSlots.simps [simp del] genScopedSlotList.simps [simp del] genScopedSlot.simps [simp del]
  genForScopedSlot.simps [simp del] genChildren.simps [simp del] genNodes.simps [simp del]
  genNode.simps [simp del] genSlot.simps [simp del] genComponent.simps [simp del]

text \<open>
  A later state of the same compile: the list of static programs and the diagnostics
  have only grown at the end, the counter has not gone down, and the raw flag is what it
  was.
\<close>

definition extends :: "CodegenState \<Rightarrow> CodegenState \<Rightarrow> bool" where
  "extends st st' =
     (prefix (staticRenderFns st) (staticRenderFns st') \<and> onceId st \<le> onceId st' \<and>
      state_pre st' = state_pre st \<and> prefix (warned st) (warned st'))"

definition grows :: "CodegenState \<Rightarrow> error + 'a \<times> CodegenState \<Rightarrow> bool" where
  "grows st r = (case r of Inl e \<Rightarrow> True | Inr (x, st') \<Rightarrow> extends st st')"

definition grows3 :: "CodegenState \<Rightarrow> error + 'a \<times> 'b \<times> CodegenState \<Rightarrow> bool" where
  "grows3 st r = (case r of Inl e \<Rightarrow> True | Inr (x, i, st') \<Rightarrow> extends st st')"

definition growsW :: "warning list \<Rightarrow> error + 'a \<times> warning list \<Rightarrow> bool" where
  "growsW ws r = (case r of Inl e \<Rightarrow> True | Inr (x, ws') \<Rightarrow> prefix ws ws')"

lemma extends_refl [simp]: "extends st st"
  by (simp add: extends_def)

lemma extends_trans: "extends a b \<Longrightarrow> extends b c \<Longrightarrow> extends a c"
  by (auto simp: extends_def)

lemma extends_warn [simp]: "extends st (warn msg tip st)"
  by (simp add: extends_def warn_def)

lemma grows_simps [simp]:
  "grows st (Inl e)" "grows st (Inr (x, st')) = extends st st'"
  "grows3 st (Inl e)" "grows3 st (Inr (x, i, st')) = extends st st'"
  "growsW ws (Inl e)" "growsW ws (Inr (x, ws')) = prefix ws ws'"
  by (simp_all add: grows_def grows3_def growsW_def)

lemma grows_trans: "extends st st1 \<Longrightarrow> grows st1 r \<Longrightarrow> grows st r"
  by (auto simp: grows_def split: sum.splits intro: extends_trans)

lemma grows3_trans: "extends st st1 \<Longrightarrow> grows3 st1 r \<Longrightarrow> grows3 st r"
  by (auto simp: grows3_def split: sum.splits intro: extends_trans)


lemma extends_static:
  "extends st0 st1 \<Longrightarrow> st0 = st \<or> st0 = st\<lparr>state_pre := p\<rparr> \<Longrightarrow>
     extends st (st1\<lparr>staticRenderFns := staticRenderFns st1 @ xs, state_pre := state_pre st\<rparr>)"
  by (auto simp: extends_def)

lemma extends_onceId: "extends st st1 \<Longrightarrow> extends st (st1\<lparr>onceId := Suc (onceId st1)\<rparr>)"
  by (auto simp: extends_def)

lemma grows_warn: "grows (warn msg tip st) r \<Longrightarrow> grows st r"
  by (rule grows_trans [OF extends_warn])

lemma extends_warned: "extends st (st\<lparr>warned := warned st @ ws\<rparr>)"
  by (auto simp: extends_def)

lemma extends_warned': "prefix (warned st) ws \<Longrightarrow> extends st (st\<lparr>warned := ws\<rparr>)"
  by (auto simp: extends_def)

lemma grows_bind:
  assumes "grows st m"
    and "\<And>x st1. m = Inr (x, st1) \<Longrightarrow> extends st st1 \<Longrightarrow> grows st (f x st1)"
  shows "grows st (case m of Inl e \<Rightarrow> Inl e | Inr (x, st1) \<Rightarrow> f x st1)"
  using assms by (cases m) auto

lemma grows_bind3:
  assumes "grows st m"
    and "\<And>x st1. m = Inr (x, st1) \<Longrightarrow> extends st st1 \<Longrightarrow> grows3 st (f x st1)"
  shows "grows3 st (case m of Inl e \<Rightarrow> Inl e | Inr (x, st1) \<Rightarrow> f x st1)"
  using assms by (cases m) auto

lemma grows3_bind:
  assumes "grows3 st m"
    and "\<And>x i st1. m = Inr (x, i, st1) \<Longrightarrow> extends st st1 \<Longrightarrow> grows st (f x i st1)"
  shows "grows st (case m of Inl e \<Rightarrow> Inl e | Inr (x, i, st1) \<Rightarrow> f x i st1)"
  using assms by (cases m) auto

lemma grows3_bind3:
  assumes "grows3 st m"
    and "\<And>x i st1. m = Inr (x, i, st1) \<Longrightarrow> extends st st1 \<Longrightarrow> grows3 st (f x i st1)"
  shows "grows3 st (case m of Inl e \<Rightarrow> Inl e | Inr (x, i, st1) \<Rightarrow> f x i st1)"
  using assms by (cases m) auto


lemma grows_if:
  "(c \<Longrightarrow> grows st a) \<Longrightarrow> (\<not> c \<Longrightarrow> grows st b) \<Longrightarrow> grows st (if c then a else b)"
  by simp

lemma grows3_if:
  "(c \<Longrightarrow> grows3 st a) \<Longrightarrow> (\<not> c \<Longrightarrow> grows3 st b) \<Longrightarrow> grows3 st (if c then a else b)"
  by simp

lemma grows_option:
  "(x = None \<Longrightarrow> grows st a) \<Longrightarrow> (\<And>y. x = Some y \<Longrightarrow> grows st (b y)) \<Longrightarrow>
     grows st (case x of None \<Rightarrow> a | Some y \<Rightarrow> b y)"
  by (cases x) auto

lemmas grows_intros =
  grows_if grows3_if grows_bind grows_bind3 grows3_bind grows3_bind3 grows_option


text \<open>\<open>genStatic\<close>, its steps read off the definition.\<close>

lemma genStatic_unfold:
  "genStatic opts (ASTElement i0 cs conds slots) ctx st =
     (case genElement opts (ASTElement (i0\<lparr>staticProcessed := True\<rparr>) cs conds slots) ctx
             (if pre i0 then st\<lparr>state_pre := True\<rparr> else st) of
        Inl e \<Rightarrow> Inl e
      | Inr (code, st1) \<Rightarrow>
          Inr (''_m('' @ String_of_nat (length (staticRenderFns st1)) @
                 (if staticInFor i0 then '',true'' else []) @ '')'',
               st1\<lparr>staticRenderFns := staticRenderFns st1 @ [''with(this){return '' @ code @ ''}''],
                    state_pre := state_pre st\<rparr>))"
  by (simp add: genStatic.simps Let_def split: sum.splits)

text \<open>
  Every function of the generator leaves a later state of the same compile: nothing it
  calls takes an entry off the list of static programs, lowers the counter or drops a
  diagnostic, and the raw flag is restored where it is changed.
\<close>

lemma gen_grows:
  "grows st (genElement opts el ctx st)"
  "grows st (genStatic opts el ctx st)"
  "grows st (genOnce opts el ctx st)"
  "grows st (genIf opts el ctx st)"
  "grows st (genIfConditions opts conditions host ctx st)"
  "grows st (genFor opts el ctx st)"
  "grows3 st (genData opts el ctx st)"
  "grows st (genInlineTemplate opts el ctx st)"
  "growsW ws (generate opts ast ctx ws)"
  "grows st (genScopedSlots opts sl ctx st)"
  "grows st (genScopedSlotList opts sl ctx st)"
  "grows st (genScopedSlot opts k el ctx st)"
  "grows st (genForScopedSlot opts k el ctx st)"
  "grows st (genChildren opts el ctx st checkSkip)"
  "grows st (genNodes opts ns ctx st)"
  "grows st (genNode opts n ctx st)"
  "grows st (genSlot opts el ctx st)"
  "grows3 st (genComponent opts componentName el ctx st)"
proof (induction opts el ctx st and opts el ctx st and opts el ctx st and opts el ctx st
    and opts conditions host ctx st and opts el ctx st and opts el ctx st and opts el ctx st
    and opts ast ctx ws and opts sl ctx st and opts sl ctx st and opts k el ctx st
    and opts k el ctx st and opts el ctx st checkSkip and opts ns ctx st and opts n ctx st
    and opts el ctx st and opts componentName el ctx st
    rule: genElement_genStatic_genOnce_genIf_genIfConditions_genFor_genData_genInlineTemplate_generate_genScopedSlots_genScopedSlotList_genScopedSlot_genForScopedSlot_genChildren_genNodes_genNode_genSlot_genComponent.induct)
  case (1 opts i0 cs conds slots ctx st)
  show ?case
    apply (subst genElement.simps)
    apply (simp only: Let_def)
    apply (intro grows_intros)
    using 1(1) [OF refl refl] 1(2) [OF refl refl] 1(3) [OF refl refl] 1(4) [OF refl refl]
      1(5) [OF refl refl] 1(6) [OF refl refl] 1(7) [OF refl refl] 1(8) [OF refl refl]
      1(9) [OF refl refl]
    apply (auto intro: grows_trans grows3_trans)
    done
next
  case (2 opts i0 cs conds slots ctx st)
  define st0 where "st0 = (if pre i0 then st\<lparr>state_pre := True\<rparr> else st)"
  have ih: "grows st0 (genElement opts (ASTElement (i0\<lparr>staticProcessed := True\<rparr>) cs conds slots) ctx st0)"
    using 2 [OF refl refl refl] by (cases "pre i0") (simp_all add: st0_def)
  have s: "st0 = st \<or> st0 = st\<lparr>state_pre := True\<rparr>" by (auto simp: st0_def)
  show ?case
  proof (cases "genElement opts (ASTElement (i0\<lparr>staticProcessed := True\<rparr>) cs conds slots) ctx st0")
    case (Inl e)
    then show ?thesis unfolding genStatic_unfold st0_def [symmetric] by simp
  next
    case (Inr p)
    obtain code st1 where p: "p = (code, st1)" by (cases p)
    from ih Inr p have "extends st0 st1" by simp
    from extends_static [OF this s] show ?thesis
      unfolding genStatic_unfold st0_def [symmetric] by (simp add: Inr p)
  qed
next
  case (3 opts i0 cs conds slots ctx st)
  show ?case
    apply (subst genOnce.simps)
    apply (simp only: Let_def)
    apply (intro grows_intros)
    using 3(1) [OF refl refl] 3(2) [OF refl refl _ _ refl] 3(3) [OF refl refl _ _ refl]
      3(4) [OF refl refl]
    apply (auto intro: grows_trans grows_warn extends_onceId)
    done
next
  case (4 opts i0 cs conds slots ctx st)
  then show ?case
    by (subst genIf.simps) (auto simp: Let_def split: option.splits)
next
  case (5 opts host ctx st)
  then show ?case by (simp add: genIfConditions.simps)
next
  case (6 opts exp blk conditions host ctx st)
  show ?case
    apply (subst genIfConditions.simps)
    apply (simp only: Let_def)
    apply (intro grows_intros)
    using 6(1) [OF refl] 6(2) [OF refl] 6(3) [OF refl refl]
    apply (auto intro: grows_trans)
    done
next
  case (7 opts i0 cs conds slots ctx st)
  show ?case
    apply (subst genFor.simps)
    apply (simp only: Let_def)
    apply (intro grows_intros)
    using 7 [OF refl refl refl refl]
    apply (auto intro: grows_trans grows_warn)
    done
next
  case (8 opts i0 cs conds slots ctx st)
  obtain dirs i ws where g: "genDirectives opts i0 = (dirs, i, ws)"
    by (cases "genDirectives opts i0") auto
  let ?st1 = "st\<lparr>warned := warned st @ ws\<rparr>"
  let ?el = "ASTElement i cs conds slots"
  let ?m = "case slots of None \<Rightarrow> Inr ([], ?st1)
            | Some sl \<Rightarrow>
                (case genScopedSlots opts sl (i # ctx) ?st1 of
                   Inl e \<Rightarrow> Inl e
                 | Inr (code, st2) \<Rightarrow> Inr (code @ '','', st2))"
  note ih1 = 8(1) [OF refl g [symmetric] refl refl refl refl]
  note ih2 = 8(2) [OF refl g [symmetric] refl refl refl refl]
  have e: "extends st ?st1" by (rule extends_warned)
  have m: "grows st ?m"
    using ih1 e by (auto split: option.splits sum.splits intro: extends_trans)
  show ?case
  proof (cases ?m)
    case (Inl err)
    then show ?thesis by (simp add: genData.simps g Let_def)
  next
    case (Inr p)
    obtain sc st2 where p: "p = (sc, st2)" by (cases p)
    from m Inr p have e2: "extends st st2" by simp
    have "grows st2 (if inlineTemplate i then genInlineTemplate opts ?el ctx st2 else Inr (None, st2))"
      using ih2 [OF Inr [unfolded p] refl] by simp
    then show ?thesis using e2
      by (auto simp: genData.simps g Let_def Inr p split: sum.splits if_splits intro: extends_trans)
  qed
next
  case (9 opts i cs conds slots ctx st)
  show ?case
  proof (cases cs)
    case Nil
    then show ?thesis by (simp add: genInlineTemplate.simps)
  next
    case (Cons ast rest)
    show ?thesis
    proof (cases ast)
      case (TextNode t)
      then show ?thesis by (simp add: genInlineTemplate.simps Cons Let_def)
    next
      case (Element a)
      from 9 [OF Cons refl Element] show ?thesis
        by (auto simp: genInlineTemplate.simps Cons Element Let_def extends_def warn_def
            split: sum.splits if_splits dest: append_prefixD)
    qed
  qed
next
  case (10 opts ast ctx ws)
  show ?case
  proof (cases ast)
    case None
    then show ?thesis by (simp add: generate.simps)
  next
    case (Some a)
    from 10 [OF refl Some] show ?thesis
      by (auto simp: generate.simps Some Let_def extends_def split: sum.splits)
  qed
next
  case (11 opts sl ctx st)
  show ?case
    apply (subst genScopedSlots.simps)
    apply (intro grows_intros)
    using 11
    apply (auto intro: grows_trans)
    done
next
  case (12 opts ctx st)
  then show ?case by (simp add: genScopedSlotList.simps)
next
  case (13 opts k el sl ctx st)
  show ?case
    apply (subst genScopedSlotList.simps)
    apply (intro grows_intros)
    using 13
    apply (auto intro: grows_trans)
    done
next
  case (14 opts k i cs conds slots ctx st)
  show ?case
    apply (subst genScopedSlot.simps)
    apply (intro grows_intros)
    using 14
    apply (auto intro: grows_trans)
    done
next
  case (15 opts k i0 cs conds slots ctx st)
  show ?case
    apply (subst genForScopedSlot.simps)
    apply (simp only: Let_def)
    apply (intro grows_intros)
    using 15
    apply (auto intro: grows_trans)
    done
next
  case (16 opts i cs conds slots ctx st checkSkip)
  show ?case
    apply (subst genChildren.simps)
    apply (simp only: Let_def)
    apply (intro grows_intros)
    using 16
    apply (auto intro: grows_trans)
    done
next
  case (17 opts ctx st)
  then show ?case by (simp add: genNodes.simps)
next
  case (18 opts c cs ctx st)
  show ?case
    apply (subst genNodes.simps)
    apply (intro grows_intros)
    using 18
    apply (auto intro: grows_trans)
    done
next
  case (19 opts el ctx st)
  then show ?case by (simp add: genNode.simps)
next
  case (20 opts t ctx st)
  then show ?case by (simp add: genNode.simps)
next
  case (21 opts i cs conds slots ctx st)
  show ?case
    apply (subst genSlot.simps)
    apply (simp only: Let_def)
    apply (intro grows_intros)
    using 21
    apply (auto intro: grows_trans)
    done
next
  case (22 opts componentName i cs conds slots ctx st)
  show ?case
    apply (subst genComponent.simps)
    apply (intro grows_intros)
    using 22
    apply (auto intro: grows_trans grows3_trans)
    done
qed

subsection \<open>Example inputs\<close>

text \<open>
  Options with no module and no directive of the platform, in a development build; the
  state \<open>generate\<close> starts from; the fields of an element without attributes.
\<close>

definition exampleOptions :: CompilerOptions where
  "exampleOptions =
     \<lparr>production = False,
      isReservedTag = (\<lambda>t. t \<in> set [''div'', ''p'', ''span'', ''a'', ''b'', ''ul'', ''li'']),
      transforms = [], dataGenFns = [], stateDirectives = (\<lambda>n. None),
      genHandlers = (\<lambda>h native. []), camelize = (\<lambda>s. s)\<rparr>"

definition initialState :: CodegenState where
  "initialState = \<lparr>onceId = 0, staticRenderFns = [], state_pre = False, warned = []\<rparr>"

definition plainInfo :: "string \<Rightarrow> ASTInfo" where
  "plainInfo t = (info (createASTElement t []))\<lparr>plain := True\<rparr>"

definition staticParagraph :: ASTElement where
  "staticParagraph = ASTElement ((plainInfo ''p'')\<lparr>staticRoot := True\<rparr>) [] None None"

definition hoistedParagraph :: string where
  "hoistedParagraph = ''with(this){return _c('' @ sq @ ''p'' @ sq @ '')}''"

subsection \<open>Conditional groups\<close>

text \<open>
  \<open>genTernaryExp\<close> is the inner function of \<open>genIfConditions\<close>, without the alternative
  generator no caller in the file passes. \<open>compileBranches\<close> compiles the branches one after
  the other, each in the state the one before has left.
\<close>

definition genTernaryExp :: "CompilerOptions \<Rightarrow> ASTElement \<Rightarrow> ASTInfo list \<Rightarrow> CodegenState \<Rightarrow> error + string \<times> CodegenState" where
  "genTernaryExp opts el ctx st =
     (if once (info el) then genOnce opts el ctx st else genElement opts el ctx st)"

fun compileBranches ::
  "CompilerOptions \<Rightarrow> ASTElement list \<Rightarrow> ASTInfo list \<Rightarrow> CodegenState \<Rightarrow> error + string list \<times> CodegenState" where
  "compileBranches opts [] ctx st = Inr ([], st)"
| "compileBranches opts (b # bs) ctx st =
     (case genTernaryExp opts b ctx st of
        Inl e \<Rightarrow> Inl e
      | Inr (code, st1) \<Rightarrow>
          (case compileBranches opts bs ctx st1 of
             Inl e \<Rightarrow> Inl e
           | Inr (codes, st2) \<Rightarrow> Inr (code # codes, st2)))"

definition hasGuard :: "string option \<times> block \<Rightarrow> bool" where
  "hasGuard c = truthy (fst c)"

definition liveBranches :: "(string option \<times> block) list \<Rightarrow> (string option \<times> block) list" where
  "liveBranches conds = takeWhile hasGuard conds @ take 1 (dropWhile hasGuard conds)"

lemma compileBranches_length:
  "compileBranches opts bs ctx st = Inr (codes, st') \<Longrightarrow> length codes = length bs"
  by (induction bs arbitrary: st codes) (auto split: sum.splits)

lemma liveBranches_simps:
  "liveBranches [] = []"
  "hasGuard c \<Longrightarrow> liveBranches (c # conds) = c # liveBranches conds"
  "\<not> hasGuard c \<Longrightarrow> liveBranches (c # conds) = [c]"
  by (simp_all add: liveBranches_def)

lemma liveBranches_Nil: "liveBranches conds = [] \<longleftrightarrow> conds = []"
  by (cases conds) (auto simp: liveBranches_def)

lemma genIfConditions_live:
  "genIfConditions opts conds host ctx st =
     (case compileBranches opts (map (\<lambda>c. blockElement host (snd c)) (liveBranches conds)) ctx st of
        Inl e \<Rightarrow> Inl e
      | Inr (codes, st') \<Rightarrow>
          Inr (concat (map2 (\<lambda>c code. ''('' @ String_of (fst c) @ '')?'' @ code @ '':'')
                        (takeWhile hasGuard conds) codes) @
               (if list_all hasGuard conds then ''_e()'' else last codes), st'))"
proof (induction conds arbitrary: st)
  case Nil
  then show ?case by (simp add: genIfConditions.simps liveBranches_simps)
next
  case (Cons c rest)
  obtain g b where c: "c = (g, b)" by (cases c)
  show ?case
  proof (cases "hasGuard c")
    case False
    then have "\<not> truthy g" by (simp add: hasGuard_def c)
    with False show ?thesis
      by (auto simp: c genIfConditions.simps genTernaryExp_def Let_def liveBranches_simps
          split: sum.splits)
  next
    case True
    then have g: "truthy g" by (simp add: hasGuard_def c)
    have n: "codes \<noteq> []"
      if "compileBranches opts (map (\<lambda>c. blockElement host (snd c)) (liveBranches rest)) ctx st1 = Inr (codes, st2)"
        "\<not> list_all hasGuard rest" for st1 codes st2
    proof -
      from that(2) have "rest \<noteq> []" by auto
      then have "liveBranches rest \<noteq> []" by (simp add: liveBranches_Nil)
      with compileBranches_length [OF that(1)] show ?thesis by auto
    qed
    show ?thesis
      using g n True
      by (auto simp: c genIfConditions.simps genTernaryExp_def Let_def Cons.IH
          liveBranches_simps split: sum.splits)
  qed
qed

text \<open>
  Two elements with \<open>v-else\<close> after one with \<open>v-if\<close>: the builder puts both into the
  group, without a diagnostic.
\<close>

definition elseB :: ASTElement where
  "elseB = ASTElement ((plainInfo ''b'')\<lparr>el_else := True\<rparr>) [] None None"

definition elseC :: ASTElement where
  "elseC = ASTElement ((plainInfo ''c'')\<lparr>el_else := True\<rparr>) [] None None"

definition twoElse :: "(string option \<times> block) list" where
  "twoElse = [(Some ''x'', Self), (None, Other elseB), (None, Other elseC)]"

text \<open>
  Claim C1 as written fails. In the group of \<open><a v-if="x"/><b v-else/><c v-else/>\<close> the
  last branch has no guard, and the chain does not end with that branch compiled: it
  ends with the first branch that has no guard, and the branch after it is not compiled.
\<close>

theorem genIf_counterexample:
  "insertElement False elseB
     (Some (ASTElement (plainInfo ''div'')
        [Element (ASTElement ((plainInfo ''a'')\<lparr>el_if := Some ''x''\<rparr>) [] (Some [(Some ''x'', Self)]) None)]
        None None)) [] =
     (Some (ASTElement (plainInfo ''div'')
        [Element (ASTElement ((plainInfo ''a'')\<lparr>el_if := Some ''x''\<rparr>) []
           (Some [(Some ''x'', Self), (None, Other elseB)]) None)]
        None None), []) \<and>
   insertElement False elseC
     (Some (ASTElement (plainInfo ''div'')
        [Element (ASTElement ((plainInfo ''a'')\<lparr>el_if := Some ''x''\<rparr>) []
           (Some [(Some ''x'', Self), (None, Other elseB)]) None)]
        None None)) [] =
     (Some (ASTElement (plainInfo ''div'')
        [Element (ASTElement ((plainInfo ''a'')\<lparr>el_if := Some ''x''\<rparr>) [] (Some twoElse) None)]
        None None), []) \<and>
   fst (last twoElse) = None \<and>
   genTernaryExp exampleOptions elseC [plainInfo ''div''] initialState =
     Inr (''_c('' @ sq @ ''c'' @ sq @ '')'', initialState) \<and>
   genIf exampleOptions (ASTElement ((plainInfo ''a'')\<lparr>el_if := Some ''x''\<rparr>) [] (Some twoElse) None)
       [plainInfo ''div''] initialState =
     Inr (''(x)?_c('' @ sq @ ''a'' @ sq @ ''):_c('' @ sq @ ''b'' @ sq @ '')'', initialState)"
proof -
  let ?a1 = "ASTElement ((plainInfo ''a'')\<lparr>el_if := Some ''x''\<rparr>) [] (Some [(Some ''x'', Self)]) None"
  let ?a2 = "ASTElement ((plainInfo ''a'')\<lparr>el_if := Some ''x''\<rparr>) []
           (Some [(Some ''x'', Self), (None, Other elseB)]) None"
  have f: "findPrevElement False [Element el] [] = (Some el, [Element el], [])" for el
    by (subst findPrevElement.simps) simp
  have e: "el_else (info elseB)" "el_else (info elseC)" "\<not> forbidden (info elseB)"
    "\<not> forbidden (info elseC)" "elseif (info elseB) = None" "elseif (info elseC) = None"
    by (simp_all add: elseB_def elseC_def plainInfo_def createASTElement_def)
  have i: "truthy (el_if (info ?a1))" "truthy (el_if (info ?a2))"
    by (simp_all add: truthy_def)
  have b1: "insertElement False elseB (Some (ASTElement (plainInfo ''div'') [Element ?a1] None None)) [] =
     (Some (ASTElement (plainInfo ''div'') [Element ?a2] None None), [])"
    using i(1) by (simp add: insertElement_def processIfConditions_def f e addIfCondition_def)
  have b2: "insertElement False elseC (Some (ASTElement (plainInfo ''div'') [Element ?a2] None None)) [] =
     (Some (ASTElement (plainInfo ''div'')
        [Element (ASTElement ((plainInfo ''a'')\<lparr>el_if := Some ''x''\<rparr>) [] (Some twoElse) None)]
        None None), [])"
    using i(2) by (simp add: insertElement_def processIfConditions_def f e addIfCondition_def twoElse_def)
  have l: "fst (last twoElse) = None" by (simp add: twoElse_def)
  have c: "genTernaryExp exampleOptions elseC [plainInfo ''div''] initialState =
     Inr (''_c('' @ sq @ ''c'' @ sq @ '')'', initialState)"
    by code_simp
  have g: "genIf exampleOptions (ASTElement ((plainInfo ''a'')\<lparr>el_if := Some ''x''\<rparr>) [] (Some twoElse) None)
       [plainInfo ''div''] initialState =
     Inr (''(x)?_c('' @ sq @ ''a'' @ sq @ ''):_c('' @ sq @ ''b'' @ sq @ '')'', initialState)"
    by code_simp
  from b1 b2 l c g show ?thesis by (intro conjI)
qed

text \<open>
  Claim C1, amended. The conditional group of an element is the list of its branches,
  each with its guard. \<open>genIf\<close> marks the element as processed and compiles the branches
  in order, up to and with the first one that has no guard; a branch after that one is
  not compiled. It returns the chain \<open>(g1)?C1:(g2)?C2:...:T\<close>, nested to the right, over
  the branches before the first one without a guard: \<open>Ci\<close> is what \<open>genOnce\<close> makes of
  branch \<open>i\<close> when the branch has the once flag and what \<open>genElement\<close> makes of it
  otherwise, the tail \<open>T\<close> is the compiled first branch without a guard, and \<open>_e()\<close> when
  every branch has a guard. An error of a branch is the error of the whole.
\<close>

theorem genIf_ternary_chain:
  "genIf opts (ASTElement i cs (Some conds) slots) ctx st =
     (case compileBranches opts
             (map (\<lambda>c. blockElement (ASTElement (i\<lparr>ifProcessed := True\<rparr>) cs (Some conds) slots) (snd c))
                (liveBranches conds))
             ctx st of
        Inl e \<Rightarrow> Inl e
      | Inr (codes, st') \<Rightarrow>
          Inr (concat (map2 (\<lambda>c code. ''('' @ String_of (fst c) @ '')?'' @ code @ '':'')
                        (takeWhile hasGuard conds) codes) @
               (if list_all hasGuard conds then ''_e()'' else last codes), st'))"
proof -
  have "genIf opts (ASTElement i cs (Some conds) slots) ctx st =
      genIfConditions opts conds (ASTElement (i\<lparr>ifProcessed := True\<rparr>) cs (Some conds) slots) ctx st"
    by (simp add: genIf.simps Let_def)
  also note genIfConditions_live
  finally show ?thesis .
qed


text \<open>
  The group of \<open><a v-if="x"/><b v-else-if="y"/><c v-else/>\<close>: the first branch is the
  element that carries the group.
\<close>

definition exampleConds :: "(string option \<times> block) list" where
  "exampleConds =
     [(Some ''x'', Self),
      (Some ''y'', Other (ASTElement ((plainInfo ''b'')\<lparr>elseif := Some ''y''\<rparr>) [] None None)),
      (None, Other (ASTElement ((plainInfo ''c'')\<lparr>el_else := True\<rparr>) [] None None))]"

theorem genIf_ternary_chain_witness:
  "genIf exampleOptions (ASTElement ((plainInfo ''a'')\<lparr>el_if := Some ''x''\<rparr>) [] (Some exampleConds) None) []
       initialState =
     Inr (''(x)?_c('' @ sq @ ''a'' @ sq @ ''):(y)?_c('' @ sq @ ''b'' @ sq @ ''):_c('' @ sq @ ''c'' @ sq @ '')'',
          initialState)"
proof -
  have b: "compileBranches exampleOptions
      (map (\<lambda>c. blockElement
                   (ASTElement ((plainInfo ''a'')\<lparr>el_if := Some ''x'', ifProcessed := True\<rparr>) [] (Some exampleConds) None)
                   (snd c)) (liveBranches exampleConds)) [] initialState =
     Inr ([''_c('' @ sq @ ''a'' @ sq @ '')'', ''_c('' @ sq @ ''b'' @ sq @ '')'', ''_c('' @ sq @ ''c'' @ sq @ '')''],
          initialState)"
    by code_simp
  have l: "\<not> list_all hasGuard exampleConds"
    by (simp add: exampleConds_def hasGuard_def truthy_def)
  show ?thesis
    using genIf_ternary_chain [of exampleOptions "(plainInfo ''a'')\<lparr>el_if := Some ''x''\<rparr>" "[]" exampleConds None "[]" initialState]
    unfolding b if_not_P [OF l]
    by (simp add: exampleConds_def hasGuard_def truthy_def String_of_def)
qed

subsection \<open>Static roots\<close>







subsection \<open>Elements rendered once\<close>

text \<open>
  The loop of \<open>genOnce\<close> stops at the first ancestor that has an iteration binding, and
  the key is the key of that ancestor. \<open>onceFallback\<close> is the branch \<open>if (!key)\<close>: the
  diagnostic, in a development build, and the ordinary compilation.
\<close>

definition nearestFor :: "ASTInfo list \<Rightarrow> ASTInfo option" where
  "nearestFor ctx = find (\<lambda>parent. truthy (el_for parent)) ctx"

definition onceFallback :: "CompilerOptions \<Rightarrow> ASTElement \<Rightarrow> ASTInfo list \<Rightarrow> CodegenState \<Rightarrow> error + string \<times> CodegenState" where
  "onceFallback opts el ctx st =
     genElement opts el ctx
       (if production opts then st
        else warn ''v-once can only be used inside v-for that is keyed. '' False st)"

lemma findKey_nearestFor:
  "findKey ctx = (case nearestFor ctx of None \<Rightarrow> Some [] | Some parent \<Rightarrow> key parent)"
  by (induction ctx) (simp_all add: nearestFor_def)

definition unkeyedFor :: ASTInfo where
  "unkeyedFor = (plainInfo ''li'')\<lparr>el_for := Some ''xs'', el_alias := Some ''x''\<rparr>"

definition keyedFor :: ASTInfo where
  "keyedFor = (plainInfo ''ul'')\<lparr>el_for := Some ''ys'', el_alias := Some ''y'', key := Some ''y.id'', plain := False\<rparr>"

text \<open>
  Claim C3 as written fails. An element with the once flag inside two nested iterations,
  of which only the outer one has a key: an ancestor with an iteration binding has a key
  expression, and yet \<open>genOnce\<close> gives the diagnostic and returns the ordinary
  compilation, since the nearest iterating ancestor has none.
\<close>

theorem genOnce_counterexample:
  "list_ex (\<lambda>parent. truthy (el_for parent) \<and> truthy (key parent)) [unkeyedFor, keyedFor] \<and>
   genOnce exampleOptions (ASTElement ((plainInfo ''p'')\<lparr>once := True, staticInFor := True\<rparr>) [] None None)
       [unkeyedFor, keyedFor] initialState =
     Inr (''_c('' @ sq @ ''p'' @ sq @ '')'',
          initialState\<lparr>warned := [(''v-once can only be used inside v-for that is keyed. '', False)]\<rparr>)"
  by code_simp

text \<open>
  Claim C3, amended. For an element that is not conditional (no \<open>if\<close>, or the \<open>if\<close>
  already processed) and has \<open>staticInFor\<close>: if no ancestor has an iteration binding, or
  the nearest ancestor that has one has no key expression, \<open>genOnce\<close> gives one diagnostic
  (none in a production build) and returns what \<open>genElement\<close> makes of the element,
  marked as processed; otherwise it returns \<open>_o(code,id,key)\<close>, where \<open>code\<close> is the
  compiled element, \<open>key\<close> is the key expression of the nearest iterating ancestor, and
  \<open>id\<close> is the value of the counter after the element is compiled, which is then raised
  by one. The counter, 0 in the state \<open>generate\<close> builds, is never lowered by the compile
  of the element.
\<close>

theorem genOnce_keyed:
  assumes "\<not> (truthy (el_if i0) \<and> \<not> ifProcessed i0)" and "staticInFor i0"
  shows "genOnce opts (ASTElement i0 cs conds slots) ctx st =
     (case nearestFor ctx of
        None \<Rightarrow> onceFallback opts (ASTElement (i0\<lparr>onceProcessed := True\<rparr>) cs conds slots) ctx st
      | Some parent \<Rightarrow>
          if truthy (key parent) then
            (case genElement opts (ASTElement (i0\<lparr>onceProcessed := True\<rparr>) cs conds slots) ctx st of
               Inl e \<Rightarrow> Inl e
             | Inr (code, st1) \<Rightarrow>
                 Inr (''_o('' @ code @ '','' @ String_of_nat (onceId st1) @ '','' @ String_of (key parent) @ '')'',
                      st1\<lparr>onceId := onceId st1 + 1\<rparr>))
          else onceFallback opts (ASTElement (i0\<lparr>onceProcessed := True\<rparr>) cs conds slots) ctx st) \<and>
     (case genElement opts (ASTElement (i0\<lparr>onceProcessed := True\<rparr>) cs conds slots) ctx st of
        Inl e \<Rightarrow> True
      | Inr (code, st1) \<Rightarrow> onceId st \<le> onceId st1)"
proof
  show "genOnce opts (ASTElement i0 cs conds slots) ctx st =
     (case nearestFor ctx of
        None \<Rightarrow> onceFallback opts (ASTElement (i0\<lparr>onceProcessed := True\<rparr>) cs conds slots) ctx st
      | Some parent \<Rightarrow>
          if truthy (key parent) then
            (case genElement opts (ASTElement (i0\<lparr>onceProcessed := True\<rparr>) cs conds slots) ctx st of
               Inl e \<Rightarrow> Inl e
             | Inr (code, st1) \<Rightarrow>
                 Inr (''_o('' @ code @ '','' @ String_of_nat (onceId st1) @ '','' @ String_of (key parent) @ '')'',
                      st1\<lparr>onceId := onceId st1 + 1\<rparr>))
          else onceFallback opts (ASTElement (i0\<lparr>onceProcessed := True\<rparr>) cs conds slots) ctx st)"
    using assms
    by (cases "production opts")
      (auto simp: genOnce.simps Let_def findKey_nearestFor onceFallback_def truthy_def
        split: option.splits)
next
  have "grows st (genElement opts (ASTElement (i0\<lparr>onceProcessed := True\<rparr>) cs conds slots) ctx st)"
    by (rule gen_grows(1))
  then show "case genElement opts (ASTElement (i0\<lparr>onceProcessed := True\<rparr>) cs conds slots) ctx st of
        Inl e \<Rightarrow> True
      | Inr (code, st1) \<Rightarrow> onceId st \<le> onceId st1"
    by (auto simp: extends_def split: sum.splits)
qed

theorem genOnce_keyed_witness:
  "\<not> (truthy (el_if ((plainInfo ''p'')\<lparr>once := True, staticInFor := True\<rparr>)) \<and>
      \<not> ifProcessed ((plainInfo ''p'')\<lparr>once := True, staticInFor := True\<rparr>)) \<and>
   staticInFor ((plainInfo ''p'')\<lparr>once := True, staticInFor := True\<rparr>) \<and>
   genOnce exampleOptions (ASTElement ((plainInfo ''p'')\<lparr>once := True, staticInFor := True\<rparr>) [] None None)
       [plainInfo ''div'', keyedFor] initialState =
     Inr (''_o(_c('' @ sq @ ''p'' @ sq @ ''),0,y.id)'', initialState\<lparr>onceId := 1\<rparr>) \<and>
   genOnce exampleOptions (ASTElement ((plainInfo ''p'')\<lparr>once := True, staticInFor := True\<rparr>) [] None None)
       [plainInfo ''div'', unkeyedFor, keyedFor] initialState =
     Inr (''_c('' @ sq @ ''p'' @ sq @ '')'',
          initialState\<lparr>warned := [(''v-once can only be used inside v-for that is keyed. '', False)]\<rparr>)"
proof -
  let ?i = "(plainInfo ''p'')\<lparr>once := True, staticInFor := True\<rparr>"
  have a: "\<not> (truthy (el_if ?i) \<and> \<not> ifProcessed ?i)" "staticInFor ?i"
    by (simp_all add: plainInfo_def createASTElement_def truthy_def)
  have n: "nearestFor [plainInfo ''div'', keyedFor] = Some keyedFor"
    "nearestFor [plainInfo ''div'', unkeyedFor, keyedFor] = Some unkeyedFor"
    by (simp_all add: nearestFor_def plainInfo_def keyedFor_def unkeyedFor_def createASTElement_def truthy_def)
  have k: "truthy (key keyedFor)" "String_of (key keyedFor) = ''y.id''" "\<not> truthy (key unkeyedFor)"
    by (simp_all add: keyedFor_def unkeyedFor_def plainInfo_def createASTElement_def truthy_def String_of_def)
  have inner: "genElement exampleOptions (ASTElement (?i\<lparr>onceProcessed := True\<rparr>) [] None None)
      [plainInfo ''div'', keyedFor] initialState = Inr (''_c('' @ sq @ ''p'' @ sq @ '')'', initialState)"
    by code_simp
  have fallback: "onceFallback exampleOptions (ASTElement (?i\<lparr>onceProcessed := True\<rparr>) [] None None)
      [plainInfo ''div'', unkeyedFor, keyedFor] initialState =
      Inr (''_c('' @ sq @ ''p'' @ sq @ '')'',
          initialState\<lparr>warned := [(''v-once can only be used inside v-for that is keyed. '', False)]\<rparr>)"
    by code_simp
  have z: "String_of_nat 0 = ''0''" by code_simp
  have g1: "genOnce exampleOptions (ASTElement ?i [] None None) [plainInfo ''div'', keyedFor] initialState =
     Inr (''_o(_c('' @ sq @ ''p'' @ sq @ ''),0,y.id)'', initialState\<lparr>onceId := 1\<rparr>)"
    using genOnce_keyed [OF a, of exampleOptions "[]" None None "[plainInfo ''div'', keyedFor]" initialState,
        THEN conjunct1]
    unfolding n inner by (simp add: k z initialState_def)
  have g2: "genOnce exampleOptions (ASTElement ?i [] None None) [plainInfo ''div'', unkeyedFor, keyedFor] initialState =
     Inr (''_c('' @ sq @ ''p'' @ sq @ '')'',
          initialState\<lparr>warned := [(''v-once can only be used inside v-for that is keyed. '', False)]\<rparr>)"
    using genOnce_keyed [OF a, of exampleOptions "[]" None None "[plainInfo ''div'', unkeyedFor, keyedFor]" initialState,
        THEN conjunct1]
    unfolding n fallback by (simp add: k)
  from a g1 g2 show ?thesis by simp
qed

subsection \<open>Children\<close>

text \<open>
  The normalization level in the words of the specification: 2 if some element child, or
  some branch of its conditional group, is an iteration, a \<open>template\<close> or a \<open>slot\<close>; else 1
  if some element child, or some branch of its group, may be a component; else 0. The
  loop of \<open>getNormalizationType\<close> computes it.
\<close>

definition branchesOf :: "ASTElement \<Rightarrow> ASTElement list" where
  "branchesOf el =
     (case ifConditions el of None \<Rightarrow> [] | Some conds \<Rightarrow> map (\<lambda>c. blockElement el (snd c)) conds)"

definition elementsOf :: "ASTNode list \<Rightarrow> ASTElement list" where
  "elementsOf cs = concat (map (\<lambda>c. case c of Element el \<Rightarrow> [el] | TextNode t \<Rightarrow> []) cs)"

definition normalizationLevel :: "CompilerOptions \<Rightarrow> ASTNode list \<Rightarrow> nat" where
  "normalizationLevel opts cs =
     (if list_ex (\<lambda>el. needsNormalization (info el) \<or>
                       list_ex (\<lambda>b. needsNormalization (info b)) (branchesOf el)) (elementsOf cs)
      then 2
      else if list_ex (\<lambda>el. maybeComponent opts (info el) \<or>
                            list_ex (\<lambda>b. maybeComponent opts (info b)) (branchesOf el)) (elementsOf cs)
      then 1
      else 0)"

lemma getNormalizationTypeLoop_level:
  "getNormalizationTypeLoop opts cs res =
     (if list_ex (\<lambda>el. needsNormalization (info el) \<or>
                       list_ex (\<lambda>b. needsNormalization (info b)) (branchesOf el)) (elementsOf cs)
      then 2
      else if list_ex (\<lambda>el. maybeComponent opts (info el) \<or>
                            list_ex (\<lambda>b. maybeComponent opts (info b)) (branchesOf el)) (elementsOf cs)
      then 1
      else res)"
proof (induction cs arbitrary: res)
  case Nil
  then show ?case by (simp add: elementsOf_def)
next
  case (Cons c cs)
  show ?case
  proof (cases c)
    case (TextNode t)
    then show ?thesis using Cons [of res] by (simp add: elementsOf_def)
  next
    case (Element el)
    have n: "(case ifConditions el of None \<Rightarrow> False
              | Some conds \<Rightarrow> list_ex (\<lambda>c. needsNormalization (info (blockElement el (snd c)))) conds) =
             list_ex (\<lambda>b. needsNormalization (info b)) (branchesOf el)"
      by (cases "ifConditions el") (simp_all add: branchesOf_def list_ex_iff)
    have m: "(case ifConditions el of None \<Rightarrow> False
              | Some conds \<Rightarrow> list_ex (\<lambda>c. maybeComponent opts (info (blockElement el (snd c)))) conds) =
             list_ex (\<lambda>b. maybeComponent opts (info b)) (branchesOf el)"
      by (cases "ifConditions el") (simp_all add: branchesOf_def list_ex_iff)
    have e: "elementsOf (c # cs) = el # elementsOf cs"
      by (simp add: elementsOf_def Element)
    show ?thesis
      using Cons [of 1] Cons [of res]
      by (simp add: Element n m e [unfolded Element])
  qed
qed

lemma getNormalizationType_level: "getNormalizationType opts cs = normalizationLevel opts cs"
  by (simp add: getNormalizationType_def normalizationLevel_def getNormalizationTypeLoop_level)

lemma singleFor_eq:
  "singleFor cs =
     (case cs of
        [Element c1] \<Rightarrow>
          if truthy (el_for (info c1)) \<and> tag (info c1) \<noteq> ''template'' \<and> tag (info c1) \<noteq> ''slot''
          then Some c1 else None
      | _ \<Rightarrow> None)"
  by (simp add: singleFor_def)

definition slotAndText :: "ASTNode list" where
  "slotAndText = [Element (ASTElement (plainInfo ''slot'') [] None None), TextNode (ASTText ''a'' False)]"

text \<open>
  Claim C4 as written fails. The children of a \<open>template\<close> element are compiled without
  the check: \<open>genElement\<close> calls \<open>genChildren(el, state)\<close> there, and so do \<open>genSlot\<close> and
  \<open>genScopedSlot\<close>. With a \<open>slot\<close> among the children the level is 2, and no \<open>,2\<close>
  follows the array.
\<close>

theorem genChildren_counterexample:
  "slotAndText \<noteq> [] \<and> length slotAndText = 2 \<and>
   normalizationLevel exampleOptions slotAndText = 2 \<and>
   genChildren exampleOptions (ASTElement (plainInfo ''template'') slotAndText None None) [] initialState False =
     Inr (Some (''[_t('' @ dq @ ''default'' @ dq @ ''),_v('' @ dq @ ''a'' @ dq @ '')]''), initialState) \<and>
   genElement exampleOptions (ASTElement (plainInfo ''template'') slotAndText None None) [] initialState =
     Inr (''[_t('' @ dq @ ''default'' @ dq @ ''),_v('' @ dq @ ''a'' @ dq @ '')]'', initialState)"
  by code_simp

text \<open>
  Claim C4, amended. For an element with children that are not none: if there is one
  child, an element with an iteration binding whose tag is neither \<open>template\<close> nor
  \<open>slot\<close>, \<open>genChildren\<close> returns what \<open>genElement\<close> makes of that child, followed by \<open>,1\<close>
  exactly when the child may be a component. Otherwise it returns the array of the
  compiled children, followed by \<open>,L\<close> when the caller has asked for the check
  (\<open>checkSkip\<close>, as \<open>genElement\<close> does for an ordinary element and \<open>genComponent\<close> for a
  component) and the normalization level \<open>L\<close> of the children is not 0; when the caller
  has not asked, nothing follows the array.
\<close>

theorem genChildren_normalization:
  assumes "cs \<noteq> []"
  shows "genChildren opts (ASTElement i cs conds slots) ctx st checkSkip =
     (case (case cs of
              [Element c1] \<Rightarrow>
                if truthy (el_for (info c1)) \<and> tag (info c1) \<noteq> ''template'' \<and> tag (info c1) \<noteq> ''slot''
                then Some c1 else None
            | _ \<Rightarrow> None) of
        Some c1 \<Rightarrow>
          (case genElement opts c1 (i # ctx) st of
             Inl e \<Rightarrow> Inl e
           | Inr (code, st1) \<Rightarrow>
               Inr (Some (code @ (if maybeComponent opts (info c1) then '',1'' else [])), st1))
      | None \<Rightarrow>
          (case genNodes opts cs (i # ctx) st of
             Inl e \<Rightarrow> Inl e
           | Inr (codes, st1) \<Rightarrow>
               Inr (Some (''['' @ join '','' codes @ '']'' @
                          (if checkSkip \<and> normalizationLevel opts cs \<noteq> 0
                           then '','' @ String_of_nat (normalizationLevel opts cs) else [])), st1)))"
proof -
  have "genChildren opts (ASTElement i cs conds slots) ctx st checkSkip =
     (case singleFor cs of
        Some c1 \<Rightarrow>
          (case genElement opts c1 (i # ctx) st of
             Inl e \<Rightarrow> Inl e
           | Inr (code, st1) \<Rightarrow>
               Inr (Some (code @ (if maybeComponent opts (info c1) then '',1'' else [])), st1))
      | None \<Rightarrow>
          (case genNodes opts cs (i # ctx) st of
             Inl e \<Rightarrow> Inl e
           | Inr (codes, st1) \<Rightarrow>
               Inr (Some (''['' @ join '','' codes @ '']'' @
                          (if checkSkip \<and> normalizationLevel opts cs \<noteq> 0
                           then '','' @ String_of_nat (normalizationLevel opts cs) else [])), st1)))"
    using assms
    by (cases "singleFor cs"; cases checkSkip)
      (simp_all add: genChildren.simps Let_def getNormalizationType_level)
  then show ?thesis unfolding singleFor_eq .
qed

theorem genChildren_normalization_witness:
  "slotAndText \<noteq> [] \<and>
   genChildren exampleOptions (ASTElement (plainInfo ''div'') slotAndText None None) [] initialState True =
     Inr (Some (''[_t('' @ dq @ ''default'' @ dq @ ''),_v('' @ dq @ ''a'' @ dq @ '')],2''), initialState) \<and>
   genChildren exampleOptions (ASTElement (plainInfo ''template'') slotAndText None None) [] initialState False =
     Inr (Some (''[_t('' @ dq @ ''default'' @ dq @ ''),_v('' @ dq @ ''a'' @ dq @ '')]''), initialState)"
proof -
  have a: "slotAndText \<noteq> []" by (simp add: slotAndText_def)
  have s: "(case slotAndText of
              [Element c1] \<Rightarrow>
                if truthy (el_for (info c1)) \<and> tag (info c1) \<noteq> ''template'' \<and> tag (info c1) \<noteq> ''slot''
                then Some c1 else None
            | _ \<Rightarrow> None) = None"
    by (simp add: slotAndText_def)
  have n1: "genNodes exampleOptions slotAndText [plainInfo ''div''] initialState =
      Inr ([''_t('' @ dq @ ''default'' @ dq @ '')'', ''_v('' @ dq @ ''a'' @ dq @ '')''], initialState)"
    by code_simp
  have n2: "genNodes exampleOptions slotAndText [plainInfo ''template''] initialState =
      Inr ([''_t('' @ dq @ ''default'' @ dq @ '')'', ''_v('' @ dq @ ''a'' @ dq @ '')''], initialState)"
    by code_simp
  have l: "normalizationLevel exampleOptions slotAndText = 2" by code_simp
  have j: "join '','' [''_t('' @ dq @ ''default'' @ dq @ '')'', ''_v('' @ dq @ ''a'' @ dq @ '')''] =
      ''_t('' @ dq @ ''default'' @ dq @ ''),_v('' @ dq @ ''a'' @ dq @ '')''"
    by code_simp
  have t: "String_of_nat 2 = ''2''" by code_simp
  have g1: "genChildren exampleOptions (ASTElement (plainInfo ''div'') slotAndText None None) [] initialState True =
     Inr (Some (''[_t('' @ dq @ ''default'' @ dq @ ''),_v('' @ dq @ ''a'' @ dq @ '')],2''), initialState)"
    using genChildren_normalization [OF a, of exampleOptions "plainInfo ''div''" None None "[]" initialState True]
    unfolding s n1 l j t by simp
  have g2: "genChildren exampleOptions (ASTElement (plainInfo ''template'') slotAndText None None) [] initialState False =
     Inr (Some (''[_t('' @ dq @ ''default'' @ dq @ ''),_v('' @ dq @ ''a'' @ dq @ '')]''), initialState)"
    using genChildren_normalization [OF a, of exampleOptions "plainInfo ''template''" None None "[]" initialState False]
    unfolding s n2 l j t by simp
  from a g1 g2 show ?thesis by simp
qed

subsection \<open>Inline templates\<close>

text \<open>
  Claim C8. For an element whose only child is an element, \<open>genInlineTemplate\<close> compiles
  the child with \<open>generate\<close>, that is from a state made anew: counter 0, no static
  program, raw flag off, and the diagnostics given so far. The static programs of that
  compile are in the text returned, each inside \<open>function(){...}\<close> after \<open>staticRenderFns:\<close>,
  and nowhere else: the state of the enclosing compile comes back with the list of
  static programs, the counter and the raw flag it had, and with the diagnostics of the
  nested compile.
\<close>

theorem genInlineTemplate_frame:
  "genInlineTemplate opts (ASTElement i [Element a] conds slots) ctx st =
     (case genElement opts a (i # ctx)
             \<lparr>onceId = 0, staticRenderFns = [], state_pre = False, warned = warned st\<rparr> of
        Inl e \<Rightarrow> Inl e
      | Inr (code, nested) \<Rightarrow>
          Inr (Some (''inlineTemplate:{render:function(){with(this){return '' @ code @
                     ''}},staticRenderFns:['' @
                     join '','' (map (\<lambda>program. ''function(){'' @ program @ ''}'') (staticRenderFns nested)) @
                     '']}''),
               st\<lparr>warned := warned nested\<rparr>)) \<and>
   (case genInlineTemplate opts (ASTElement i [Element a] conds slots) ctx st of
      Inl e \<Rightarrow> True
    | Inr (code, st') \<Rightarrow>
        staticRenderFns st' = staticRenderFns st \<and> onceId st' = onceId st \<and> state_pre st' = state_pre st)"
proof -
  have e: "genInlineTemplate opts (ASTElement i [Element a] conds slots) ctx st =
     (case genElement opts a (i # ctx)
             \<lparr>onceId = 0, staticRenderFns = [], state_pre = False, warned = warned st\<rparr> of
        Inl e \<Rightarrow> Inl e
      | Inr (code, nested) \<Rightarrow>
          Inr (Some (''inlineTemplate:{render:function(){with(this){return '' @ code @
                     ''}},staticRenderFns:['' @
                     join '','' (map (\<lambda>program. ''function(){'' @ program @ ''}'') (staticRenderFns nested)) @
                     '']}''),
               st\<lparr>warned := warned nested\<rparr>))"
    by (simp add: genInlineTemplate.simps generate.simps Let_def split: sum.splits)
  show ?thesis
    apply (rule conjI)
     apply (rule e)
    apply (subst e)
    apply (simp split: sum.splits)
    done
qed

text \<open>
  A component with an inline template \<open><div><p/></div>\<close>, the paragraph a static root, in
  a compile that has hoisted one program and given out three identifiers already.
\<close>

definition enclosingState :: CodegenState where
  "enclosingState = \<lparr>onceId = 3, staticRenderFns = [''with(this){return _c('' @ dq @ ''hr'' @ dq @ '')}''], state_pre = False, warned = []\<rparr>"

definition inlineChild :: ASTElement where
  "inlineChild = ASTElement (plainInfo ''div'') [Element staticParagraph] None None"

theorem genInlineTemplate_frame_witness:
  "genInlineTemplate exampleOptions
       (ASTElement ((plainInfo ''comp'')\<lparr>inlineTemplate := True\<rparr>) [Element inlineChild] None None) []
       enclosingState =
     Inr (Some (''inlineTemplate:{render:function(){with(this){return _c('' @ sq @ ''div'' @ sq @
                '',[_m(0)])}},staticRenderFns:[function(){'' @ hoistedParagraph @ ''}]}''),
          enclosingState)"
proof -
  have inner: "genElement exampleOptions inlineChild [(plainInfo ''comp'')\<lparr>inlineTemplate := True\<rparr>]
      \<lparr>onceId = 0, staticRenderFns = [], state_pre = False, warned = warned enclosingState\<rparr> =
      Inr (''_c('' @ sq @ ''div'' @ sq @ '',[_m(0)])'',
           \<lparr>onceId = 0, staticRenderFns = [hoistedParagraph], state_pre = False, warned = []\<rparr>)"
    by code_simp
  have j: "join '','' [''function(){'' @ hoistedParagraph @ ''}''] = ''function(){'' @ hoistedParagraph @ ''}''"
    by code_simp
  show ?thesis
    using genInlineTemplate_frame [THEN conjunct1, of exampleOptions "(plainInfo ''comp'')\<lparr>inlineTemplate := True\<rparr>"
        inlineChild None None "[]" enclosingState]
    unfolding inner by (simp add: j enclosingState_def)
qed


end
